theory Spec2Isabelle
  imports Main
begin

section \<open>Python values used by graphovl.py\<close>

text \<open>
  Source text is a Python \<^verbatim>\<open>str\<close>; it is modelled as a \<^typ>\<open>string\<close> whose characters
  are the code points below 256. Exceptions that the script does not catch are values of
  \<^verbatim>\<open>error\<close>; \<^verbatim>\<open>Exit\<close> is the fatal \<^verbatim>\<open>os._exit(1)\<close>.
\<close>

datatype error = ValueError | IndexError | KeyError | RegexError | Exit

text \<open>What the script prints as a warning (the wording of the line is not modelled).\<close>

datatype message =
    UnknownMacro string
  | MacroCallFailed string "string list"
  | MacroExpandFailed string
  | IndexNotParsed string
  | FunctionNotFound string string

text \<open>\<^verbatim>\<open>str.isspace\<close> and the class \<^verbatim>\<open>\s\<close> on code points below 256.\<close>

definition is_space :: "char \<Rightarrow> bool" where
  "is_space c = (c \<in> set [CHR 0x09, CHR 0x0A, CHR 0x0B, CHR 0x0C, CHR 0x0D, CHR 0x1C,
     CHR 0x1D, CHR 0x1E, CHR 0x1F, CHR 0x20, CHR 0x85, CHR 0xA0])"

text \<open>The class \<^verbatim>\<open>[a-zA-Z_\d]\<close>.\<close>

definition is_ident :: "char \<Rightarrow> bool" where
  "is_ident c = (c \<in> set ''abcdefghijklmnopqrstuvwxyzABCDEFGHIJKLMNOPQRSTUVWXYZ_0123456789'')"

text \<open>\<^verbatim>\<open>s.startswith(p)\<close>, \<^verbatim>\<open>s.endswith(p)\<close>, \<^verbatim>\<open>p in s\<close> and \<^verbatim>\<open>s.index(p)\<close>
  (\<open>None\<close> where Python raises \<^verbatim>\<open>ValueError\<close>).\<close>

definition starts_with :: "string \<Rightarrow> string \<Rightarrow> bool" where
  "starts_with p s = (take (length p) s = p)"

definition ends_with :: "string \<Rightarrow> string \<Rightarrow> bool" where
  "ends_with p s = starts_with (rev p) (rev s)"

primrec contains :: "string \<Rightarrow> string \<Rightarrow> bool" where
  "contains p [] = (p = [])"
| "contains p (c # s) = (starts_with p (c # s) \<or> contains p s)"

primrec str_index :: "string \<Rightarrow> string \<Rightarrow> nat option" where
  "str_index p [] = (if p = [] then Some 0 else None)"
| "str_index p (c # s) =
     (if starts_with p (c # s) then Some 0 else map_option Suc (str_index p s))"

text \<open>\<^verbatim>\<open>s.split(sep)\<close> for a non-empty separator (every call site passes a literal).\<close>

fun split_from :: "char \<Rightarrow> string \<Rightarrow> string \<Rightarrow> string \<Rightarrow> string list" where
  "split_from d ds cur [] = [cur]"
| "split_from d ds cur (c # s) =
     (if c = d \<and> starts_with ds s
      then cur # split_from d ds [] (drop (length ds) s)
      else split_from d ds (cur @ [c]) s)"

fun py_split :: "string \<Rightarrow> string \<Rightarrow> string list" where
  "py_split (d # ds) s = split_from d ds [] s"

declare py_split.simps [simp del]

text \<open>\<^verbatim>\<open>s.strip()\<close> and \<^verbatim>\<open>s.strip(chars)\<close>.\<close>

definition py_strip :: "string \<Rightarrow> string" where
  "py_strip s = rev (dropWhile is_space (rev (dropWhile is_space s)))"

definition py_strip_chars :: "string \<Rightarrow> string \<Rightarrow> string" where
  "py_strip_chars cs s =
     rev (dropWhile (\<lambda>c. c \<in> set cs) (rev (dropWhile (\<lambda>c. c \<in> set cs) s)))"

text \<open>\<^verbatim>\<open>s.replace(old, new)\<close>: every occurrence, left to right, without overlap.\<close>

fun replace_from :: "char \<Rightarrow> string \<Rightarrow> string \<Rightarrow> string \<Rightarrow> string" where
  "replace_from d ds new [] = []"
| "replace_from d ds new (c # s) =
     (if c = d \<and> starts_with ds s
      then new @ replace_from d ds new (drop (length ds) s)
      else c # replace_from d ds new s)"

fun py_replace :: "string \<Rightarrow> string \<Rightarrow> string \<Rightarrow> string" where
  "py_replace [] new s = new @ concat (map (\<lambda>c. c # new) s)"
| "py_replace (d # ds) new s = replace_from d ds new s"

text \<open>\<^verbatim>\<open>str(i)\<close> for an integer.\<close>

definition digit_char :: "nat \<Rightarrow> char" where
  "digit_char d = ''0123456789'' ! d"

fun digits10 :: "nat \<Rightarrow> string" where
  "digits10 n = (if n < 10 then [digit_char n] else digits10 (n div 10) @ [digit_char (n mod 10)])"

declare digits10.simps [simp del]

definition py_str :: "int \<Rightarrow> string" where
  "py_str i = (if i < 0 then CHR ''-'' # digits10 (nat (- i)) else digits10 (nat i))"

text \<open>
  \<^verbatim>\<open>int(s)\<close> and \<^verbatim>\<open>int(s, 0)\<close> on a string (\<open>None\<close> where Python raises
  \<^verbatim>\<open>ValueError\<close>): surrounding whitespace, a sign, then digits, where one underscore may
  stand between two digits. The whitespace that \<^verbatim>\<open>int\<close> skips is narrower than
  \<^verbatim>\<open>str.isspace\<close>: below 256 it leaves out the separators 0x1C to 0x1F. With base 0 the prefixes \<^verbatim>\<open>0x\<close>, \<^verbatim>\<open>0o\<close> and \<^verbatim>\<open>0b\<close> choose
  the base (one underscore may follow the prefix), and a decimal number that starts with
  \<^verbatim>\<open>0\<close> is accepted only when it is zero.
\<close>

definition digit_val :: "char \<Rightarrow> nat option" where
  "digit_val c =
     (let n = (of_char c :: nat) in
      if 48 \<le> n \<and> n \<le> 57 then Some (n - 48)
      else if 97 \<le> n \<and> n \<le> 122 then Some (n - 87)
      else if 65 \<le> n \<and> n \<le> 90 then Some (n - 55)
      else None)"

fun parse_digits :: "nat \<Rightarrow> nat \<Rightarrow> bool \<Rightarrow> string \<Rightarrow> nat option" where
  "parse_digits b acc prev [] = (if prev then Some acc else None)"
| "parse_digits b acc prev (c # s) =
     (if c = CHR ''_'' then (if prev then parse_digits b acc False s else None)
      else case digit_val c of
        None \<Rightarrow> None
      | Some d \<Rightarrow> if d < b then parse_digits b (acc * b + d) True s else None)"

definition parse_prefixed :: "nat \<Rightarrow> string \<Rightarrow> nat option" where
  "parse_prefixed b s = parse_digits b 0 False (if starts_with ''_'' s then tl s else s)"

definition is_int_space :: "char \<Rightarrow> bool" where
  "is_int_space c = (c \<in> set [CHR 0x09, CHR 0x0A, CHR 0x0B, CHR 0x0C, CHR 0x0D, CHR 0x20,
     CHR 0x85, CHR 0xA0])"

definition int_strip :: "string \<Rightarrow> string" where
  "int_strip s = rev (dropWhile is_int_space (rev (dropWhile is_int_space s)))"

definition int_sign :: "string \<Rightarrow> bool \<times> string" where
  "int_sign s =
     (let t = int_strip s in
      if starts_with ''-'' t then (True, tl t)
      else if starts_with ''+'' t then (False, tl t)
      else (False, t))"

definition signed :: "bool \<Rightarrow> nat option \<Rightarrow> int option" where
  "signed neg v = map_option (\<lambda>n. if neg then - int n else int n) v"

definition py_int :: "string \<Rightarrow> int option" where
  "py_int s = (case int_sign s of (neg, r) \<Rightarrow> signed neg (parse_digits 10 0 False r))"

definition py_int0 :: "string \<Rightarrow> int option" where
  "py_int0 s =
     (case int_sign s of (neg, r) \<Rightarrow>
        signed neg
          (if starts_with ''0x'' r \<or> starts_with ''0X'' r then parse_prefixed 16 (drop 2 r)
           else if starts_with ''0o'' r \<or> starts_with ''0O'' r then parse_prefixed 8 (drop 2 r)
           else if starts_with ''0b'' r \<or> starts_with ''0B'' r then parse_prefixed 2 (drop 2 r)
           else if starts_with ''0'' r
           then (case parse_digits 10 0 False r of
                   Some n \<Rightarrow> if n = 0 then Some 0 else None
                 | None \<Rightarrow> None)
           else parse_digits 10 0 False r))"

text \<open>
  \<^verbatim>\<open>s.splitlines(True)\<close>: the lines with their endings. A line ends at a line feed, a
  carriage return (with the line feed after it), or one of the other boundaries of
  \<^verbatim>\<open>str.splitlines\<close> below 256.
\<close>

definition is_linebreak :: "char \<Rightarrow> bool" where
  "is_linebreak c = (c \<in> set [CHR 0x0A, CHR 0x0B, CHR 0x0C, CHR 0x0D, CHR 0x1C, CHR 0x1D,
     CHR 0x1E, CHR 0x85])"

fun splitlines_from :: "string \<Rightarrow> string \<Rightarrow> string list" where
  "splitlines_from cur [] = (if cur = [] then [] else [cur])"
| "splitlines_from cur (c # s) =
     (if c = CHR 0x0D
      then (case s of
              [] \<Rightarrow> [cur @ [c]]
            | d # s' \<Rightarrow>
                if d = CHR 0x0A then (cur @ [c, d]) # splitlines_from [] s'
                else (cur @ [c]) # splitlines_from [] s)
      else if is_linebreak c then (cur @ [c]) # splitlines_from [] s
      else splitlines_from (cur @ [c]) s)"

definition py_splitlines :: "string \<Rightarrow> string list" where
  "py_splitlines s = splitlines_from [] s"

text \<open>\<^verbatim>\<open>s.count(c)\<close> for one character, and \<^verbatim>\<open>xs.index(x)\<close> (\<open>None\<close> where Python raises
  \<^verbatim>\<open>ValueError\<close>).\<close>

definition count_char :: "char \<Rightarrow> string \<Rightarrow> nat" where
  "count_char c s = length (filter (\<lambda>d. d = c) s)"

primrec list_index :: "'a list \<Rightarrow> 'a \<Rightarrow> nat option" where
  "list_index [] x = None"
| "list_index (y # ys) x = (if y = x then Some 0 else map_option Suc (list_index ys x))"

section \<open>Regular expressions of the script\<close>

text \<open>
  \<^verbatim>\<open>re.finditer\<close>: a matcher gives, for the text at one position, the match that starts
  there and its length; the scan tries the positions left to right and resumes after a
  match. No pattern of the script matches the empty string or looks behind its start.
\<close>

primrec finditer :: "(string \<Rightarrow> ('a \<times> nat) option) \<Rightarrow> nat \<Rightarrow> string \<Rightarrow> 'a list" where
  "finditer m k [] = []"
| "finditer m k (c # s) =
     (case k of
        Suc j \<Rightarrow> finditer m j s
      | 0 \<Rightarrow> (case m (c # s) of
                None \<Rightarrow> finditer m 0 s
              | Some (g, n) \<Rightarrow> g # finditer m (n - 1) s))"

text \<open>\<^verbatim>\<open>[^\)]*\)\<close>: everything up to the first closing parenthesis, and it.\<close>

definition upto_rparen :: "string \<Rightarrow> string option" where
  "upto_rparen s =
     (case dropWhile (\<lambda>c. c \<noteq> CHR '')'') s of
        [] \<Rightarrow> None
      | c # r \<Rightarrow> Some (takeWhile (\<lambda>c. c \<noteq> CHR '')'') s @ [c]))"

text \<open>
  \<^verbatim>\<open>func_call_regexpr = [a-zA-Z_\d]+\([^\)]*\)(\.[^\)]*\))?\<close> at the start of a text: the
  matched text. Each greedy part has one way to match, so no backtracking is needed.
\<close>

definition func_call_match :: "string \<Rightarrow> string option" where
  "func_call_match s =
     (let name = takeWhile is_ident s; r0 = dropWhile is_ident s in
      if name = [] \<or> \<not> starts_with ''('' r0 then None
      else case upto_rparen (tl r0) of
        None \<Rightarrow> None
      | Some args \<Rightarrow>
          (let call = name @ ''('' @ args; r1 = drop (length args) (tl r0) in
           if starts_with ''.'' r1
           then (case upto_rparen (tl r1) of
                   None \<Rightarrow> Some call
                 | Some mem \<Rightarrow> Some (call @ ''.'' @ mem))
           else Some call))"

definition func_call_at :: "string \<Rightarrow> (string \<times> nat) option" where
  "func_call_at s = map_option (\<lambda>g. (g, length g)) (func_call_match s)"

text \<open>
  \<^verbatim>\<open>macrosRegexpr = #define\s+([a-zA-Z_\d]+)(\([a-zA-Z_\d]+\))?\s+(.+?)(\n|//|/\*)\<close>.
  \<open>lazy_body\<close> is the lazy group 3 with its terminator: at least one character that is not a
  newline, up to the first terminator. \<open>ws_then_body\<close> gives the second \<^verbatim>\<open>\s+\<close> its
  longest run first and backs off one character at a time.
\<close>

fun lazy_body :: "string \<Rightarrow> string \<Rightarrow> (string \<times> nat) option" where
  "lazy_body acc [] = None"
| "lazy_body acc (c # s) =
     (if acc \<noteq> [] \<and> c = CHR 0x0A then Some (acc, length acc + 1)
      else if acc \<noteq> [] \<and> (starts_with ''//'' (c # s) \<or> starts_with ''/*'' (c # s))
      then Some (acc, length acc + 2)
      else if c = CHR 0x0A then None
      else lazy_body (acc @ [c]) s)"

fun ws_then_body :: "nat \<Rightarrow> string \<Rightarrow> (string \<times> nat) option" where
  "ws_then_body 0 s = None"
| "ws_then_body (Suc k) s =
     (case lazy_body [] (drop (Suc k) s) of
        Some (b, n) \<Rightarrow> Some (b, Suc k + n)
      | None \<Rightarrow> ws_then_body k s)"

text \<open>Group 2, \<^verbatim>\<open>(\([a-zA-Z_\d]+\))?\<close>: one identifier in parentheses, when it is there.\<close>

definition macro_params_group :: "string \<Rightarrow> string option" where
  "macro_params_group s =
     (if starts_with ''('' s
      then (let p = takeWhile is_ident (tl s) in
            if p \<noteq> [] \<and> starts_with '')'' (dropWhile is_ident (tl s))
            then Some (''('' @ p @ '')'') else None)
      else None)"

definition macro_at :: "string \<Rightarrow> ((string \<times> string option \<times> string) \<times> nat) option" where
  "macro_at s =
     (if \<not> starts_with ''#define'' s then None
      else
        (let s1 = drop 7 s; ws1 = takeWhile is_space s1; s2 = dropWhile is_space s1;
             name = takeWhile is_ident s2; s3 = dropWhile is_ident s2;
             g2 = macro_params_group s3;
             s4 = (case g2 of None \<Rightarrow> s3 | Some p \<Rightarrow> drop (length p) s3)
         in if ws1 = [] \<or> name = [] then None
            else case ws_then_body (length (takeWhile is_space s4)) s4 of
              None \<Rightarrow> None
            | Some (b, n) \<Rightarrow>
                Some ((name, g2, b),
                  7 + length ws1 + length name + (case g2 of None \<Rightarrow> 0 | Some p \<Rightarrow> length p) + n)))"

text \<open>
  \<^verbatim>\<open>func_defs_regexpr\<close>: the call pattern, then a space, an opening brace and one character
  that is not a closing brace.
\<close>

definition func_defs_at :: "string \<Rightarrow> (string \<times> nat) option" where
  "func_defs_at s =
     (case func_call_match s of
        None \<Rightarrow> None
      | Some call \<Rightarrow>
          (let r = drop (length call) s in
           if starts_with '' {'' r
           then (case drop 2 r of
                   [] \<Rightarrow> None
                 | c # r' \<Rightarrow>
                     if c = CHR ''}'' then None
                     else Some (call @ '' {'' @ [c], length call + 3))
           else None))"

text \<open>
  \<^verbatim>\<open>enumsRegexpr = enum\s+\{([^\}]+?)\}\<close>: group 1 is the text up to the first closing brace,
  and it is not empty.
\<close>

definition enum_at :: "string \<Rightarrow> (string \<times> nat) option" where
  "enum_at s =
     (if \<not> starts_with ''enum'' s then None
      else
        (let s1 = drop 4 s; ws = takeWhile is_space s1; s2 = dropWhile is_space s1;
             g = takeWhile (\<lambda>c. c \<noteq> CHR ''}'') (tl s2);
             r = dropWhile (\<lambda>c. c \<noteq> CHR ''}'') (tl s2)
         in if ws = [] \<or> \<not> starts_with ''{'' s2 \<or> g = [] \<or> r = [] then None
            else Some (g, 4 + length ws + 1 + length g + 1)))"

text \<open>
  \<^verbatim>\<open>setupaction_regexpr\<close> and \<^verbatim>\<open>setaction_regexpr\<close>: the stem (\<^verbatim>\<open>_SetupActio\<close> or
  \<^verbatim>\<open>_SetActio\<close>), at least one \<^verbatim>\<open>n\<close>, the parenthesised arguments, the optional member
  part and a semicolon.
\<close>

definition action_call_at :: "string \<Rightarrow> string \<Rightarrow> (string \<times> nat) option" where
  "action_call_at stem s =
     (let r = drop (length stem) s; ns = takeWhile (\<lambda>c. c = CHR ''n'') r;
          r0 = dropWhile (\<lambda>c. c = CHR ''n'') r
      in if \<not> starts_with stem s \<or> ns = [] \<or> \<not> starts_with ''('' r0 then None
         else case upto_rparen (tl r0) of
           None \<Rightarrow> None
         | Some args \<Rightarrow>
             (let call = stem @ ns @ ''('' @ args; r1 = drop (length args) (tl r0) in
              case (if starts_with ''.'' r1 then upto_rparen (tl r1) else None) of
                Some mem \<Rightarrow>
                  if starts_with '';'' (drop (length mem) (tl r1))
                  then Some (call @ ''.'' @ mem @ '';'', length call + 1 + length mem + 1)
                  else None
              | None \<Rightarrow>
                  if starts_with '';'' r1 then Some (call @ '';'', length call + 1) else None))"

text \<open>
  \<^verbatim>\<open>indirectCallRegexpr = (this->[a-zA-Z_\d]+)\s*=\s*([a-zA-Z_\d]+);\<close>: groups 1 and 2.
\<close>

definition indirect_call_at :: "string \<Rightarrow> ((string \<times> string) \<times> nat) option" where
  "indirect_call_at s =
     (let r0 = drop 6 s; m = takeWhile is_ident r0; r1 = dropWhile is_ident r0;
          w1 = takeWhile is_space r1; r2 = dropWhile is_space r1;
          w2 = takeWhile is_space (tl r2); r3 = dropWhile is_space (tl r2);
          v = takeWhile is_ident r3; r4 = dropWhile is_ident r3
      in if starts_with ''this->'' s \<and> m \<noteq> [] \<and> starts_with ''='' r2 \<and> v \<noteq> [] \<and>
            starts_with '';'' r4
         then Some ((''this->'' @ m, v),
                6 + length m + length w1 + 1 + length w2 + length v + 1)
         else None)"

text \<open>
  \<^verbatim>\<open>re.search\<close> is the first match of the scan. The two searches of \<^verbatim>\<open>main\<close> for the
  array of action functions are built from \<^verbatim>\<open>action_func_type\<close>, which holds identifier
  characters only: \<^verbatim>\<open>T (.+)\[\] = {\<close> and \<^verbatim>\<open>T (.+)\[\] = \{([^}]*?)\};\<close>. The greedy
  group 1 stays on one line and takes the longest text after which the rest matches;
  \<open>longest_before\<close> tries the lengths \<open>k\<close>, \<open>k - 1\<close>, ..., 1.
\<close>

definition search :: "(string \<Rightarrow> ('a \<times> nat) option) \<Rightarrow> string \<Rightarrow> 'a option" where
  "search m s = (case finditer m 0 s of [] \<Rightarrow> None | g # gs \<Rightarrow> Some g)"

fun longest_before :: "(string \<Rightarrow> 'a option) \<Rightarrow> nat \<Rightarrow> string \<Rightarrow> (nat \<times> 'a) option" where
  "longest_before tail 0 s = None"
| "longest_before tail (Suc k) s =
     (case tail (drop (Suc k) s) of
        Some x \<Rightarrow> Some (Suc k, x)
      | None \<Rightarrow> longest_before tail k s)"

definition array_decl_at :: "string \<Rightarrow> string \<Rightarrow> (string \<times> nat) option" where
  "array_decl_at T s =
     (let r = drop (length T + 1) s; line = takeWhile (\<lambda>c. c \<noteq> CHR 0x0A) r in
      if \<not> starts_with (T @ '' '') s then None
      else case longest_before (\<lambda>t. if starts_with ''[] = {'' t then Some () else None)
                  (length line) r of
        None \<Rightarrow> None
      | Some (k, u) \<Rightarrow> Some (take k r, length T + 1 + k + 6))"

definition array_init_tail :: "string \<Rightarrow> string option" where
  "array_init_tail t =
     (let r = drop 6 t in
      if starts_with ''[] = {'' t \<and>
         starts_with ''};'' (dropWhile (\<lambda>c. c \<noteq> CHR ''}'') r)
      then Some (takeWhile (\<lambda>c. c \<noteq> CHR ''}'') r) else None)"

definition array_init_at :: "string \<Rightarrow> string \<Rightarrow> ((string \<times> string) \<times> nat) option" where
  "array_init_at T s =
     (let r = drop (length T + 1) s; line = takeWhile (\<lambda>c. c \<noteq> CHR 0x0A) r in
      if \<not> starts_with (T @ '' '') s then None
      else case longest_before array_init_tail (length line) r of
        None \<Rightarrow> None
      | Some (k, g2) \<Rightarrow> Some ((take k r, g2), length T + 1 + k + 6 + length g2 + 2))"

text \<open>
  Two patterns are built from text of the analysed file that may hold any character:
  \<^verbatim>\<open>action_func_array_name + r'\[(.*)\]\('\<close> in \<^verbatim>\<open>main\<close> and
  \<^verbatim>\<open>r'(' + action_var + r' = (.)*)'\<close> in \<^verbatim>\<open>action_var_values_in_func\<close>. What the
  library \<^verbatim>\<open>re\<close> does with them, and the built-in \<^verbatim>\<open>eval\<close>, are the parameters of the
  model: \<open>py_eval text\<close> is \<^verbatim>\<open>str(eval(text))\<close>, or \<open>None\<close> when that raises an
  \<^verbatim>\<open>Exception\<close>; \<open>re_index_call name contents\<close> is group 1 of the first search result;
  \<open>re_assign action_var code_body\<close> is the list of the matched texts; both give an error
  when the pattern does not compile.
\<close>

record runtime =
  py_eval :: "string \<Rightarrow> string option"
  re_index_call :: "string \<Rightarrow> string \<Rightarrow> error + string option"
  re_assign :: "string \<Rightarrow> string \<Rightarrow> error + string list"

text \<open>
  The two patterns when the inserted text has no character that is special in a pattern:
  the greedy groups run to the end of the line, and the index group gives characters back
  until \<^verbatim>\<open>](\<close> follows.
\<close>

fun longest_upto :: "(string \<Rightarrow> bool) \<Rightarrow> nat \<Rightarrow> string \<Rightarrow> nat option" where
  "longest_upto tail 0 s = (if tail s then Some 0 else None)"
| "longest_upto tail (Suc k) s =
     (if tail (drop (Suc k) s) then Some (Suc k) else longest_upto tail k s)"

definition index_call_at :: "string \<Rightarrow> string \<Rightarrow> (string \<times> nat) option" where
  "index_call_at name s =
     (let r = drop (length name + 1) s; line = takeWhile (\<lambda>c. c \<noteq> CHR 0x0A) r in
      if \<not> starts_with (name @ ''['') s then None
      else case longest_upto (starts_with '']('') (length line) r of
        None \<Rightarrow> None
      | Some k \<Rightarrow> Some (take k r, length name + 1 + k + 2))"

definition assign_at :: "string \<Rightarrow> string \<Rightarrow> (string \<times> nat) option" where
  "assign_at action_var s =
     (let g = action_var @ '' = '' @
            takeWhile (\<lambda>c. c \<noteq> CHR 0x0A) (drop (length action_var + 3) s)
      in if starts_with (action_var @ '' = '') s then Some (g, length g) else None)"

definition plain_runtime :: "(string \<Rightarrow> string option) \<Rightarrow> runtime" where
  "plain_runtime ev =
     \<lparr> py_eval = ev,
       re_index_call = (\<lambda>name contents. Inr (search (index_call_at name) contents)),
       re_assign = (\<lambda>action_var code_body. Inr (finditer (assign_at action_var) 0 code_body)) \<rparr>"

section \<open>Enum values and macros\<close>

text \<open>
  \<^verbatim>\<open>EnumContainer.enums\<close> maps a member's name to an \<^verbatim>\<open>Enum(name, value)\<close> whose name is
  the key; the model keeps the value.
\<close>

type_synonym enums = "string \<rightharpoonup> int"

definition get :: "enums \<Rightarrow> string \<Rightarrow> string option" where
  "get enums enumName = map_option py_str (enums enumName)"

definition getDefault :: "enums \<Rightarrow> string \<Rightarrow> string \<Rightarrow> string" where
  "getDefault enums enumName dflt =
     (case enums enumName of Some v \<Rightarrow> py_str v | None \<Rightarrow> dflt)"

text \<open>
  \<^verbatim>\<open>Macro(name, params, body)\<close>. The built-in \<^verbatim>\<open>eval\<close> is a parameter \<open>ev\<close> of the model:
  \<open>ev text\<close> is \<^verbatim>\<open>str(eval(text))\<close>, and \<open>None\<close> when that raises an \<^verbatim>\<open>Exception\<close>.
\<close>

datatype macro = Macro string "string list" string

type_synonym macros = "string \<rightharpoonup> macro"

text \<open>The loop of \<^verbatim>\<open>callMacro\<close>: \<^verbatim>\<open>argsList[i]\<close> raises when the arguments run out.\<close>

fun substitute :: "enums \<Rightarrow> string list \<Rightarrow> string list \<Rightarrow> string \<Rightarrow> error + string" where
  "substitute enums [] argsList macroBody = Inr macroBody"
| "substitute enums (x # ps) [] macroBody = Inl IndexError"
| "substitute enums (x # ps) (arg # as) macroBody =
     substitute enums ps as (py_replace x (getDefault enums arg arg) macroBody)"

fun callMacro ::
  "(string \<Rightarrow> string option) \<Rightarrow> macro \<Rightarrow> string list \<Rightarrow> enums
     \<Rightarrow> error + (message list \<times> string option)" where
  "callMacro ev (Macro name params body) argsList enums =
     (case substitute enums params argsList body of
        Inl e \<Rightarrow> Inl e
      | Inr macroBody \<Rightarrow>
          (case ev macroBody of
             Some v \<Rightarrow> Inr ([], Some v)
           | None \<Rightarrow> Inr ([MacroCallFailed name argsList], None)))"

fun simpleExpand :: "(string \<Rightarrow> string option) \<Rightarrow> macro \<Rightarrow> message list \<times> string option" where
  "simpleExpand ev (Macro name params body) =
     (case ev body of
        Some v \<Rightarrow> ([], Some v)
      | None \<Rightarrow> ([MacroExpandFailed name], None))"

text \<open>
  \<^verbatim>\<open>MacrosContainer.parseMacro\<close>. The unpacking
  \<^verbatim>\<open>macroName, macroArgs = macroCall.group().split(")")[0].split("(")\<close> raises
  \<^verbatim>\<open>ValueError\<close> unless the split gives two parts.
\<close>

definition parseMacro ::
  "(string \<Rightarrow> string option) \<Rightarrow> macros \<Rightarrow> string \<Rightarrow> enums
     \<Rightarrow> error + (message list \<times> string option)" where
  "parseMacro ev macros expr enums =
     (case func_call_match expr of
        Some g \<Rightarrow>
          (case py_split ''('' (hd (py_split '')'' g)) of
             [macroName, macroArgs] \<Rightarrow>
               (case macros macroName of
                  None \<Rightarrow> Inr ([UnknownMacro macroName], None)
                | Some m \<Rightarrow> callMacro ev m (map py_strip (py_split '','' macroArgs)) enums)
           | _ \<Rightarrow> Inl ValueError)
      | None \<Rightarrow>
          (case macros expr of
             Some m \<Rightarrow> Inr (simpleExpand ev m)
           | None \<Rightarrow> Inr ([], None)))"

text \<open>\<^verbatim>\<open>MacrosContainer.getMacrosDefinitions\<close>: a later definition of a name replaces an
  earlier one.\<close>

definition macro_of_match :: "string \<times> string option \<times> string \<Rightarrow> string \<times> macro" where
  "macro_of_match x =
     (case x of (g1, g2, g3) \<Rightarrow>
        (py_strip g1,
         Macro (py_strip g1)
           (case g2 of
              None \<Rightarrow> []
            | Some aux \<Rightarrow> map py_strip (py_split '','' (py_strip_chars '')'' (py_strip_chars ''('' aux))))
           (py_strip g3)))"

definition getMacrosDefinitions :: "string \<Rightarrow> macros" where
  "getMacrosDefinitions contents =
     fold (\<lambda>x ms. (case macro_of_match x of (n, m) \<Rightarrow> ms(n \<mapsto> m)))
       (finditer macro_at 0 contents) Map.empty"

text \<open>
  \<^verbatim>\<open>EnumContainer.getEnums\<close>. \<open>strip_enum_comments\<close> is lines 155 to 161: the first block
  comment and a line comment are cut from the fragment, then it is stripped.
  \<open>enum_member\<close> is the rest of the inner loop body on the state
  \<open>(enums, enumValue)\<close>; \<^verbatim>\<open>int(valueExpr, 0)\<close> raises when the text is no number.
\<close>

definition strip_enum_comments :: "string \<Rightarrow> string" where
  "strip_enum_comments var =
     (let var1 = (case (str_index ''/*'' var, str_index ''*/'' var) of
                    (Some start, Some e) \<Rightarrow> take start var @ drop (e + 2) var
                  | _ \<Rightarrow> var);
          var2 = (case str_index ''//'' var1 of Some i \<Rightarrow> take i var1 | None \<Rightarrow> var1)
      in py_strip var2)"

definition enum_member :: "enums \<times> int \<Rightarrow> string \<Rightarrow> error + enums \<times> int" where
  "enum_member st var0 =
     (case st of (enums, enumValue) \<Rightarrow>
        (let var = strip_enum_comments var0; exprList = py_split ''='' var in
         if var = [] then Inr (enums, enumValue)
         else if length exprList > 1
         then (let enumName = py_strip (exprList ! 0);
                   valueExpr = py_strip (exprList ! 1)
               in case py_int0 (getDefault enums valueExpr valueExpr) of
                    None \<Rightarrow> Inl ValueError
                  | Some v \<Rightarrow> Inr (enums(enumName \<mapsto> v), v + 1))
         else Inr (enums(var \<mapsto> enumValue), enumValue + 1)))"

fun enum_block :: "enums \<times> int \<Rightarrow> string list \<Rightarrow> error + enums \<times> int" where
  "enum_block st [] = Inr st"
| "enum_block st (var # vars) =
     (case enum_member st var of
        Inl e \<Rightarrow> Inl e
      | Inr st' \<Rightarrow> enum_block st' vars)"

fun enum_blocks :: "enums \<Rightarrow> string list \<Rightarrow> error + enums" where
  "enum_blocks enums [] = Inr enums"
| "enum_blocks enums (x # xs) =
     (case enum_block (enums, 0) (py_split '','' x) of
        Inl e \<Rightarrow> Inl e
      | Inr (enums', enumValue) \<Rightarrow> enum_blocks enums' xs)"

definition getEnums :: "string \<Rightarrow> error + enums" where
  "getEnums contents = enum_blocks Map.empty (finditer enum_at 0 contents)"

section \<open>Function definitions and bodies\<close>

text \<open>The captures over \<^verbatim>\<open>func_call_regexpr\<close> and \<^verbatim>\<open>func_defs_regexpr\<close>.\<close>

definition capture_calls :: "string \<Rightarrow> string list" where
  "capture_calls content = finditer func_call_at 0 content"

definition capture_call_names :: "string \<Rightarrow> string list" where
  "capture_call_names content = map (\<lambda>x. hd (py_split ''('' x)) (finditer func_call_at 0 content)"

definition capture_definitions :: "string \<Rightarrow> string list" where
  "capture_definitions content = finditer func_defs_at 0 content"

definition capture_definition_names :: "string \<Rightarrow> string list" where
  "capture_definition_names content =
     map (\<lambda>x. hd (py_split ''('' x)) (finditer func_defs_at 0 content)"

text \<open>\<^verbatim>\<open>definition_by_name\<close>: the first captured definition of that name, up to its first
  opening brace, stripped; \<open>None\<close> is Python's \<^verbatim>\<open>None\<close>.\<close>

definition definition_by_name :: "string \<Rightarrow> string \<Rightarrow> string option" where
  "definition_by_name content name =
     map_option (\<lambda>d. py_strip (hd (py_split ''{'' d)))
       (find (\<lambda>d. name = hd (py_split ''('' d)) (capture_definitions content))"

text \<open>
  The globals \<^verbatim>\<open>func_definitions\<close> and \<^verbatim>\<open>line_numbers_of_functions\<close> start empty and
  are filled once; the model returns them. \<^verbatim>\<open>setup_func_definitions\<close> leaves a function
  without a definition out of the list.
\<close>

fun setup_func_definitions :: "string \<Rightarrow> string list \<Rightarrow> string list" where
  "setup_func_definitions content [] = []"
| "setup_func_definitions content (func_name # names) =
     (case definition_by_name content func_name of
        None \<Rightarrow> setup_func_definitions content names
      | Some d \<Rightarrow> (d @ '' {'') # setup_func_definitions content names)"

definition index_of_func :: "string list \<Rightarrow> string \<Rightarrow> nat option" where
  "index_of_func func_names func_name = list_index func_names func_name"

text \<open>
  \<^verbatim>\<open>setup_line_numbers\<close>: for every line, numbered from 1, and every function name, the
  line number is appended when the last line of the function's definition occurs in the
  line. \<open>line_hits\<close> is the inner loop for one line.
\<close>

fun line_hits ::
  "string list \<Rightarrow> string list \<Rightarrow> nat \<Rightarrow> string \<Rightarrow> string list \<Rightarrow> error + nat list" where
  "line_hits func_names func_definitions line_no line [] = Inr []"
| "line_hits func_names func_definitions line_no line (func_name # names) =
     (case index_of_func func_names func_name of
        None \<Rightarrow> Inl ValueError
      | Some i \<Rightarrow>
          if i < length func_definitions
          then (case line_hits func_names func_definitions line_no line names of
                  Inl e \<Rightarrow> Inl e
                | Inr hits \<Rightarrow>
                    if contains (last (py_split ''\<newline>'' (func_definitions ! i))) line
                    then Inr (line_no # hits) else Inr hits)
          else Inl IndexError)"

fun line_numbers_from ::
  "string list \<Rightarrow> string list \<Rightarrow> nat \<Rightarrow> string list \<Rightarrow> error + nat list" where
  "line_numbers_from func_names func_definitions line_no [] = Inr []"
| "line_numbers_from func_names func_definitions line_no (line # ls) =
     (case line_hits func_names func_definitions line_no line func_names of
        Inl e \<Rightarrow> Inl e
      | Inr hits \<Rightarrow>
          (case line_numbers_from func_names func_definitions (Suc line_no) ls of
             Inl e \<Rightarrow> Inl e
           | Inr later \<Rightarrow> Inr (hits @ later)))"

definition setup_line_numbers :: "string \<Rightarrow> string list \<Rightarrow> string list \<Rightarrow> error + nat list" where
  "setup_line_numbers content func_names func_definitions =
     line_numbers_from func_names func_definitions 1 (py_splitlines content)"

text \<open>
  \<^verbatim>\<open>get_code_body\<close>. \<open>strip_line_comment\<close> cuts a line at its first \<^verbatim>\<open>//\<close>;
  \<open>body_lines\<close> is the loop over the lines after the signature, with the running
  \<^verbatim>\<open>bracket_count\<close> and the text gathered so far.
\<close>

definition strip_line_comment :: "string \<Rightarrow> string" where
  "strip_line_comment raw_line =
     (case str_index ''//'' raw_line of Some i \<Rightarrow> take i raw_line | None \<Rightarrow> raw_line)"

fun body_lines :: "int \<Rightarrow> string \<Rightarrow> string list \<Rightarrow> string" where
  "body_lines bracket_count code [] = code"
| "body_lines bracket_count code (raw_line # ls) =
     (let line = strip_line_comment raw_line;
          n = bracket_count + int (count_char (CHR ''{'') line) - int (count_char (CHR ''}'') line)
      in if n = 0 then code else body_lines n (code @ line) ls)"

definition get_code_body ::
  "string list \<Rightarrow> nat list \<Rightarrow> string \<Rightarrow> string \<Rightarrow> error + string" where
  "get_code_body func_names line_numbers_of_functions content funcname =
     (case index_of_func func_names funcname of
        None \<Rightarrow> Inl ValueError
      | Some i \<Rightarrow>
          if i < length line_numbers_of_functions
          then (let line_num = line_numbers_of_functions ! i in
                if line_num \<le> 0 then Inr []
                else Inr (body_lines 1 [] (drop line_num (py_splitlines content))))
          else Inl IndexError)"

text \<open>
  The reading of a located body that the properties below compare \<^verbatim>\<open>get_code_body\<close> with.
  A line is a pair of its code and its comment: \<open>commented\<close> says that the code holds no
  \<^verbatim>\<open>//\<close> and that the comment is empty or starts with \<^verbatim>\<open>//\<close> (the code then not ending
  in a slash that would join it). \<open>brace_balance\<close> is 1 for the opening brace of the
  function plus the opening minus the closing braces of the code of the lines, and
  \<open>balanced_span\<close> is the code of the lines before the first line at whose end the balance
  is 0 (all of it when there is none).
\<close>

definition commented :: "string \<times> string \<Rightarrow> bool" where
  "commented x =
     (case x of (code, comment) \<Rightarrow>
        \<not> contains ''//'' code \<and>
        (comment = [] \<or> starts_with ''//'' comment \<and> \<not> ends_with ''/'' code))"




section \<open>Transitions and the graph\<close>

text \<open>\<^verbatim>\<open>capture_setupaction_call_arg\<close> and \<^verbatim>\<open>capture_setaction_call_arg\<close>: argument 1 or 2
  of every captured call, without repetition; a call with too few commas raises.\<close>

fun call_args :: "nat \<Rightarrow> string list \<Rightarrow> string list \<Rightarrow> error + string list" where
  "call_args k transitionList [] = Inr transitionList"
| "call_args k transitionList (x # xs) =
     (let parts = py_split '','' x in
      if k < length parts
      then (let func = py_strip (hd (py_split '');'' (py_strip (parts ! k)))) in
            call_args k (if func \<in> set transitionList then transitionList
                         else transitionList @ [func]) xs)
      else Inl IndexError)"

definition capture_setupaction_call_arg :: "string \<Rightarrow> error + string list" where
  "capture_setupaction_call_arg content =
     call_args 1 [] (finditer (action_call_at ''_SetupActio'') 0 content)"

definition capture_setaction_call_arg :: "string \<Rightarrow> error + string list" where
  "capture_setaction_call_arg content =
     call_args 2 [] (finditer (action_call_at ''_SetActio'') 0 content)"

text \<open>\<^verbatim>\<open>getIndirectMemberFuncs\<close>: the set of members is a list without repetition.\<close>

fun indirect_members :: "string list \<Rightarrow> string list \<Rightarrow> (string \<times> string) list \<Rightarrow> string list" where
  "indirect_members func_names members [] = members"
| "indirect_members func_names members ((member, val) # xs) =
     indirect_members func_names
       (if member \<noteq> ''this->actionFunc'' \<and> val \<in> set func_names \<and> member \<notin> set members
        then members @ [member] else members) xs"

definition getIndirectMemberFuncs :: "string list \<Rightarrow> string \<Rightarrow> string list" where
  "getIndirectMemberFuncs func_names code_body =
     indirect_members func_names [] (finditer indirect_call_at 0 code_body)"

text \<open>
  \<^verbatim>\<open>action_var_values_in_func\<close>. \<open>resolve_index\<close> is the body of its loop for one match:
  the text after the first \<^verbatim>\<open>" = "\<close> up to a semicolon, replaced by its macro expansion,
  else by its enum value, else kept. The messages of \<^verbatim>\<open>parseMacro\<close> are dropped here.
\<close>

definition resolve_index ::
  "runtime \<Rightarrow> macros \<Rightarrow> enums \<Rightarrow> string \<Rightarrow> error + string" where
  "resolve_index rt macros enums x =
     (let parts = py_split '' = '' x in
      if 1 < length parts
      then (let index = py_strip (hd (py_split '';'' (parts ! 1))) in
            case parseMacro (py_eval rt) macros index enums of
              Inl e \<Rightarrow> Inl e
            | Inr (msgs, Some macroValue) \<Rightarrow> Inr macroValue
            | Inr (msgs, None) \<Rightarrow>
                (case get enums index of
                   Some enumValue \<Rightarrow> Inr enumValue
                 | None \<Rightarrow> Inr index))
      else Inl IndexError)"

fun resolve_all ::
  "runtime \<Rightarrow> macros \<Rightarrow> enums \<Rightarrow> string list \<Rightarrow> string list \<Rightarrow> error + string list" where
  "resolve_all rt macros enums transition [] = Inr transition"
| "resolve_all rt macros enums transition (x # xs) =
     (case resolve_index rt macros enums x of
        Inl e \<Rightarrow> Inl e
      | Inr index \<Rightarrow>
          resolve_all rt macros enums
            (if index \<in> set transition then transition else transition @ [index]) xs)"

definition action_var_values_in_func ::
  "runtime \<Rightarrow> string \<Rightarrow> string \<Rightarrow> macros \<Rightarrow> enums \<Rightarrow> error + string list" where
  "action_var_values_in_func rt code_body action_var macros enums =
     (if \<not> contains action_var code_body then Inr []
      else case re_assign rt action_var code_body of
        Inl e \<Rightarrow> Inl e
      | Inr xs \<Rightarrow> resolve_all rt macros enums [] xs)"

text \<open>\<^verbatim>\<open>getIndirectFunctionsInFunc\<close>; the members are visited in the order of the list.\<close>

fun add_names :: "string list \<Rightarrow> string list \<Rightarrow> string list \<Rightarrow> string list" where
  "add_names removeList indirectFunctions [] = indirectFunctions"
| "add_names removeList indirectFunctions (name # names) =
     add_names removeList
       (if name \<notin> set indirectFunctions \<and> name \<notin> set removeList
        then indirectFunctions @ [name] else indirectFunctions) names"

fun indirect_functions ::
  "runtime \<Rightarrow> string \<Rightarrow> macros \<Rightarrow> enums \<Rightarrow> string list \<Rightarrow> string list \<Rightarrow> string list
     \<Rightarrow> error + string list" where
  "indirect_functions rt code_body macros enums removeList indirectFunctions [] =
     Inr indirectFunctions"
| "indirect_functions rt code_body macros enums removeList indirectFunctions (member # ms) =
     (case action_var_values_in_func rt code_body member macros enums of
        Inl e \<Rightarrow> Inl e
      | Inr names \<Rightarrow>
          indirect_functions rt code_body macros enums removeList
            (add_names removeList indirectFunctions names) ms)"

definition getIndirectFunctionsInFunc ::
  "runtime \<Rightarrow> string \<Rightarrow> string list \<Rightarrow> macros \<Rightarrow> enums \<Rightarrow> string list \<Rightarrow> error + string list" where
  "getIndirectFunctionsInFunc rt code_body indirectMemberFuncs macros enums removeList =
     indirect_functions rt code_body macros enums removeList [] indirectMemberFuncs"

text \<open>
  The graph handed to the renderer: the calls of \<^verbatim>\<open>dot.node\<close> and \<^verbatim>\<open>dot.edge\<close> in
  order. A node id is \<^verbatim>\<open>str(index)\<close>; the model keeps the index. The colour of an edge
  is the entry of the configuration that the code reads for it, which names its category.
\<close>

datatype category = ActionFunc | ActionFuncInit | FuncCall | Callback | IndirectMember

record graph =
  nodes :: "(nat \<times> string) list"
  edges :: "(nat \<times> nat \<times> category) list"

definition dot_node :: "graph \<Rightarrow> nat \<Rightarrow> string \<Rightarrow> graph" where
  "dot_node dot i label = dot\<lparr>nodes := nodes dot @ [(i, label)]\<rparr>"

definition dot_edge :: "graph \<Rightarrow> nat \<Rightarrow> nat \<Rightarrow> category \<Rightarrow> graph" where
  "dot_edge dot i j c = dot\<lparr>edges := edges dot @ [(i, j, c)]\<rparr>"

text \<open>\<^verbatim>\<open>addFunctionTransitionToGraph\<close>: a target that is no known function is skipped
  (with a warning, not modelled).\<close>

definition addFunctionTransitionToGraph ::
  "string list \<Rightarrow> graph \<Rightarrow> nat \<Rightarrow> string \<Rightarrow> string \<Rightarrow> graph" where
  "addFunctionTransitionToGraph func_names dot index func_name action_transition =
     (case index_of_func func_names action_transition of
        None \<Rightarrow> dot
      | Some funcIndex \<Rightarrow>
          dot_edge (dot_node (dot_node dot index func_name) funcIndex action_transition)
            index funcIndex
            (if ends_with ''_Init'' func_name then ActionFuncInit else ActionFunc))"

text \<open>\<^verbatim>\<open>addCallNamesToGraph\<close>: the loop over the captured call names, with the set
  \<^verbatim>\<open>seen\<close>.\<close>

fun call_names_loop ::
  "string list \<Rightarrow> nat \<Rightarrow> string list \<Rightarrow> bool \<Rightarrow> bool \<Rightarrow> string list \<Rightarrow> graph \<Rightarrow> string list
     \<Rightarrow> error + graph" where
  "call_names_loop func_names index removeList setupAction rawActorFunc seen dot [] = Inr dot"
| "call_names_loop func_names index removeList setupAction rawActorFunc seen dot (call # calls) =
     (if call \<notin> set func_names \<or> call \<in> set seen \<or> call \<in> set removeList \<or>
         (setupAction \<and> (contains ''_SetupAction'' call \<or> contains ''_SetAction'' call))
      then call_names_loop func_names index removeList setupAction rawActorFunc seen dot calls
      else if rawActorFunc \<and> \<not> index < length func_names then Inl IndexError
      else case index_of_func func_names call of
        None \<Rightarrow> Inl ValueError
      | Some calledFuncIndex \<Rightarrow>
          call_names_loop func_names index removeList setupAction rawActorFunc (call # seen)
            (dot_edge
               (dot_node
                  (if rawActorFunc then dot_node dot index (func_names ! index) else dot)
                  calledFuncIndex call)
               index calledFuncIndex FuncCall)
            calls)"

definition addCallNamesToGraph ::
  "graph \<Rightarrow> string list \<Rightarrow> nat \<Rightarrow> string \<Rightarrow> string list \<Rightarrow> bool \<Rightarrow> bool \<Rightarrow> error + graph" where
  "addCallNamesToGraph dot func_names index code_body removeList setupAction rawActorFunc =
     call_names_loop func_names index removeList setupAction rawActorFunc [] dot
       (capture_call_names code_body)"

text \<open>
  \<^verbatim>\<open>addCallbacksToGraph\<close>. \<open>callback_edges\<close> is the inner loop over the function names
  that occur in the argument list; the set \<^verbatim>\<open>seen\<close> of the source is written and never
  read, so it is not part of the state.
\<close>

fun callback_edges ::
  "string list \<Rightarrow> nat \<Rightarrow> string list \<Rightarrow> graph \<Rightarrow> string list \<Rightarrow> error + graph" where
  "callback_edges func_names index transitionList dot [] = Inr dot"
| "callback_edges func_names index transitionList dot (callback # cs) =
     (if callback \<in> set transitionList
      then callback_edges func_names index transitionList dot cs
      else case index_of_func func_names callback of
        None \<Rightarrow> Inl ValueError
      | Some calledFuncIndex \<Rightarrow>
          callback_edges func_names index transitionList
            (dot_edge (dot_node dot calledFuncIndex callback) index calledFuncIndex Callback) cs)"

definition argument_list :: "string \<Rightarrow> string list" where
  "argument_list call_with_arguments =
     (let c = py_replace '' '' [] (py_replace ''\<newline>'' [] call_with_arguments);
          arguments = drop 1 (dropWhile (\<lambda>x. x \<noteq> CHR ''('') c)
      in map py_strip (py_split '','' arguments))"

fun callbacks_loop ::
  "string list \<Rightarrow> nat \<Rightarrow> string list \<Rightarrow> graph \<Rightarrow> string list \<Rightarrow> error + graph" where
  "callbacks_loop func_names index transitionList dot [] = Inr dot"
| "callbacks_loop func_names index transitionList dot (call_with_arguments # calls) =
     (case callback_edges func_names index transitionList dot
             (filter (\<lambda>x. x \<in> set (argument_list call_with_arguments)) func_names) of
        Inl e \<Rightarrow> Inl e
      | Inr dot' \<Rightarrow> callbacks_loop func_names index transitionList dot' calls)"

definition addCallbacksToGraph ::
  "graph \<Rightarrow> string list \<Rightarrow> nat \<Rightarrow> string \<Rightarrow> string list \<Rightarrow> error + graph" where
  "addCallbacksToGraph dot func_names index code_body transitionList =
     callbacks_loop func_names index transitionList dot (capture_calls code_body)"

text \<open>\<^verbatim>\<open>addIndirectFunctionsToGraph\<close>.\<close>

fun indirect_loop ::
  "string list \<Rightarrow> nat \<Rightarrow> string list \<Rightarrow> graph \<Rightarrow> string list \<Rightarrow> error + graph" where
  "indirect_loop func_names index seen dot [] = Inr dot"
| "indirect_loop func_names index seen dot (call # calls) =
     (if call \<notin> set func_names \<or> call \<in> set seen
      then indirect_loop func_names index seen dot calls
      else if \<not> index < length func_names then Inl IndexError
      else case index_of_func func_names call of
        None \<Rightarrow> Inl ValueError
      | Some calledFuncIndex \<Rightarrow>
          indirect_loop func_names index (call # seen)
            (dot_edge
               (dot_node (dot_node dot index (func_names ! index)) calledFuncIndex call)
               index calledFuncIndex IndirectMember)
            calls)"

definition addIndirectFunctionsToGraph ::
  "graph \<Rightarrow> string list \<Rightarrow> nat \<Rightarrow> string list \<Rightarrow> error + graph" where
  "addIndirectFunctionsToGraph dot func_names index indirectFunctions =
     indirect_loop func_names index [] dot indirectFunctions"

section \<open>The main program\<close>

text \<open>Python's \<^verbatim>\<open>xs[i]\<close>: a negative index counts from the end; \<open>None\<close> is
  \<^verbatim>\<open>IndexError\<close>.\<close>

definition py_nth :: "'a list \<Rightarrow> int \<Rightarrow> 'a option" where
  "py_nth xs i =
     (if 0 \<le> i \<and> i < int (length xs) then Some (xs ! nat i)
      else if i < 0 \<and> - int (length xs) \<le> i then Some (xs ! nat (int (length xs) + i))
      else None)"

text \<open>
  Lines 564 to 570 of \<^verbatim>\<open>main\<close>, for an actor with an array of action functions: an
  index text that \<^verbatim>\<open>int\<close> rejects is reported and skipped; the look-up
  \<^verbatim>\<open>action_functions[indexTemp]\<close> stands outside the \<^verbatim>\<open>try\<close>.
\<close>

fun array_transitions :: "string list \<Rightarrow> string list \<Rightarrow> error + message list \<times> string list" where
  "array_transitions action_functions [] = Inr ([], [])"
| "array_transitions action_functions (indexStr # rest) =
     (case py_int indexStr of
        None \<Rightarrow>
          (case array_transitions action_functions rest of
             Inl e \<Rightarrow> Inl e
           | Inr (msgs, transitionList) \<Rightarrow> Inr (IndexNotParsed indexStr # msgs, transitionList))
      | Some indexTemp \<Rightarrow>
          (case py_nth action_functions indexTemp of
             None \<Rightarrow> Inl IndexError
           | Some f \<Rightarrow>
               (case array_transitions action_functions rest of
                  Inl e \<Rightarrow> Inl e
                | Inr (msgs, transitionList) \<Rightarrow> Inr (msgs, f # transitionList))))"

text \<open>Lines 551 to 575: the transition targets of one function body, by the kind of actor.\<close>

definition transitions ::
  "runtime \<Rightarrow> bool \<Rightarrow> bool \<Rightarrow> bool \<Rightarrow> bool \<Rightarrow> string list \<Rightarrow> string \<Rightarrow> macros \<Rightarrow> enums
     \<Rightarrow> string \<Rightarrow> error + string list" where
  "transitions rt setupAction setAction arrayActorFunc rawActorFunc action_functions action_var
       macros enums code_body =
     (if setupAction then capture_setupaction_call_arg code_body
      else if setAction then capture_setaction_call_arg code_body
      else if arrayActorFunc
      then (case action_var_values_in_func rt code_body action_var macros enums of
              Inl e \<Rightarrow> Inl e
            | Inr transitionIndexes \<Rightarrow>
                (case array_transitions action_functions transitionIndexes of
                   Inl e \<Rightarrow> Inl e
                 | Inr (msgs, transitionList) \<Rightarrow> Inr transitionList))
      else if rawActorFunc
      then action_var_values_in_func rt code_body ''this->actionFunc'' macros enums
      else Inr [])"

text \<open>Lines 543 to 589: the body of the last loop of \<^verbatim>\<open>main\<close> for one function.\<close>

definition function_edges ::
  "runtime \<Rightarrow> bool \<Rightarrow> string list \<Rightarrow> string list \<Rightarrow> (string \<rightharpoonup> string) \<Rightarrow> string list
     \<Rightarrow> macros \<Rightarrow> enums \<Rightarrow> bool \<Rightarrow> bool \<Rightarrow> bool \<Rightarrow> bool \<Rightarrow> string list \<Rightarrow> string
     \<Rightarrow> graph \<Rightarrow> nat \<Rightarrow> string \<Rightarrow> error + graph" where
  "function_edges rt loners removeList func_names functionBodies indirectMemberFuncs
       macros enums setupAction setAction arrayActorFunc rawActorFunc action_functions action_var
       dot index func_name =
     (if func_name \<in> set removeList then Inr dot
      else case functionBodies func_name of
        None \<Rightarrow> Inl KeyError
      | Some code_body \<Rightarrow>
          (case transitions rt setupAction setAction arrayActorFunc rawActorFunc
                  action_functions action_var macros enums code_body of
             Inl e \<Rightarrow> Inl e
           | Inr found \<Rightarrow>
               (let transitionList = filter (\<lambda>x. x \<notin> set removeList) found;
                    dot1 = (if loners then dot_node dot index func_name else dot);
                    dot2 = foldl (\<lambda>d action_transition.
                             addFunctionTransitionToGraph func_names d index func_name
                               action_transition) dot1 transitionList
                in case addCallNamesToGraph dot2 func_names index code_body removeList
                          setupAction rawActorFunc of
                     Inl e \<Rightarrow> Inl e
                   | Inr dot3 \<Rightarrow>
                       (case addCallbacksToGraph dot3 func_names index code_body
                               transitionList of
                          Inl e \<Rightarrow> Inl e
                        | Inr dot4 \<Rightarrow>
                            (case getIndirectFunctionsInFunc rt code_body indirectMemberFuncs
                                    macros enums removeList of
                               Inl e \<Rightarrow> Inl e
                             | Inr indirectFunctions \<Rightarrow>
                                 addIndirectFunctionsToGraph dot4 func_names index
                                   indirectFunctions)))))"

text \<open>\<^verbatim>\<open>for index, func_name in enumerate(func_names)\<close> with a body that may raise.\<close>

fun enumerate_loop ::
  "('s \<Rightarrow> nat \<Rightarrow> string \<Rightarrow> error + 's) \<Rightarrow> 's \<Rightarrow> nat \<Rightarrow> string list \<Rightarrow> error + 's" where
  "enumerate_loop body st index [] = Inr st"
| "enumerate_loop body st index (func_name # names) =
     (case body st index func_name of
        Inl e \<Rightarrow> Inl e
      | Inr st' \<Rightarrow> enumerate_loop body st' (Suc index) names)"

text \<open>Lines 489 to 496: the nodes of the lifecycle functions, and \<^verbatim>\<open>func_prefix\<close>.\<close>

definition lifecycle ::
  "string \<times> graph \<Rightarrow> nat \<Rightarrow> string \<Rightarrow> error + string \<times> graph" where
  "lifecycle st index func_name =
     (case st of (func_prefix, dot) \<Rightarrow>
        if ends_with ''_Init'' func_name
        then Inr (hd (py_split ''_'' func_name), dot_node dot index func_name)
        else if ends_with ''_Destroy'' func_name \<or> ends_with ''_Update'' func_name \<or>
                ends_with ''_Draw'' func_name
        then Inr (func_prefix, dot_node dot index func_name)
        else Inr (func_prefix, dot))"

text \<open>Lines 535 to 540: the body of every function, and the members that are assigned a
  function somewhere.\<close>

definition set_update :: "string list \<Rightarrow> string list \<Rightarrow> string list" where
  "set_update members new = members @ filter (\<lambda>m. m \<notin> set members) (remdups new)"

definition function_body ::
  "string list \<Rightarrow> nat list \<Rightarrow> string \<Rightarrow> (string \<rightharpoonup> string) \<times> string list \<Rightarrow> nat \<Rightarrow> string
     \<Rightarrow> error + (string \<rightharpoonup> string) \<times> string list" where
  "function_body func_names line_numbers_of_functions contents st index func_name =
     (case st of (functionBodies, indirectMemberFuncs) \<Rightarrow>
        (case get_code_body func_names line_numbers_of_functions contents func_name of
           Inl e \<Rightarrow> Inl e
         | Inr code_body \<Rightarrow>
             Inr (functionBodies(func_name \<mapsto> code_body),
                  set_update indirectMemberFuncs (getIndirectMemberFuncs func_names code_body))))"

text \<open>Lines 513 to 528: the array of action functions and the variable that indexes it.\<close>

definition array_actor ::
  "runtime \<Rightarrow> string \<Rightarrow> string \<Rightarrow> string \<Rightarrow> error + string list \<times> string" where
  "array_actor rt action_func_type group1 contents =
     (case search (array_init_at action_func_type) contents of
        None \<Rightarrow> Inl Exit
      | Some (g1, g2) \<Rightarrow>
          (case re_index_call rt (py_strip group1) contents of
             Inl e \<Rightarrow> Inl e
           | Inr None \<Rightarrow> Inl Exit
           | Inr (Some v) \<Rightarrow> Inr (map py_strip (py_split '','' g2), py_strip v)))"

text \<open>
  \<^verbatim>\<open>main\<close>, from the parsed arguments (\<^verbatim>\<open>--loners\<close>, \<^verbatim>\<open>--remove\<close>) and the text of the
  source file to the graph that is rendered. Reading the file, the style and the rendering
  are outside the model.
\<close>

definition removal_list :: "string list option \<Rightarrow> string list" where
  "removal_list remove = (case remove of None \<Rightarrow> [] | Some r \<Rightarrow> r) @ [''NULL'']"

definition main :: "runtime \<Rightarrow> bool \<Rightarrow> string list option \<Rightarrow> string \<Rightarrow> error + graph" where
  "main rt loners remove contents =
     (let removeList = removal_list remove;
          func_names = capture_definition_names contents;
          func_definitions = setup_func_definitions contents func_names
      in case setup_line_numbers contents func_names func_definitions of
        Inl e \<Rightarrow> Inl e
      | Inr line_numbers_of_functions \<Rightarrow>
      (let macros = getMacrosDefinitions contents in
       case getEnums contents of
        Inl e \<Rightarrow> Inl e
      | Inr enums \<Rightarrow>
      (case enumerate_loop lifecycle ([], \<lparr>nodes = [], edges = []\<rparr>) 0 func_names of
        Inl e \<Rightarrow> Inl e
      | Inr (func_prefix, dot) \<Rightarrow>
      (let action_func_type = func_prefix @ ''ActionFunc'';
           match_obj = search (array_decl_at action_func_type) contents;
           setupAction = (func_prefix @ ''_SetupAction'' \<in> set func_names);
           setAction = (func_prefix @ ''_SetAction'' \<in> set func_names);
           arrayActorFunc = (match_obj \<noteq> None);
           rawActorFunc = contains ''this->actionFunc'' contents
       in if \<not> setupAction \<and> \<not> setAction \<and> \<not> arrayActorFunc \<and> \<not> rawActorFunc then Inl Exit
          else case (case match_obj of
                       None \<Rightarrow> Inr ([], [])
                     | Some group1 \<Rightarrow> array_actor rt action_func_type group1 contents) of
        Inl e \<Rightarrow> Inl e
      | Inr (action_functions, action_var) \<Rightarrow>
      (case enumerate_loop (function_body func_names line_numbers_of_functions contents)
              (Map.empty, []) 0 func_names of
        Inl e \<Rightarrow> Inl e
      | Inr (functionBodies, indirectMemberFuncs) \<Rightarrow>
          enumerate_loop
            (function_edges rt loners removeList func_names functionBodies
               indirectMemberFuncs macros enums setupAction setAction arrayActorFunc
               rawActorFunc action_functions action_var)
            dot 0 func_names)))))"

text \<open>
  Predicates for the properties of the graph. \<open>lifecycle_name\<close> is the test of lines 492
  and 495. \<open>kept_targets\<close> says that every edge that is no callback edge ends at a known
  function outside the removal list; \<open>extends\<close> relates a graph to a later one: no node
  is lost and \<open>kept_targets\<close> is preserved.
\<close>

definition lifecycle_name :: "string \<Rightarrow> bool" where
  "lifecycle_name func_name =
     (ends_with ''_Init'' func_name \<or> ends_with ''_Update'' func_name \<or>
      ends_with ''_Draw'' func_name \<or> ends_with ''_Destroy'' func_name)"

definition kept_targets :: "string list \<Rightarrow> string list \<Rightarrow> graph \<Rightarrow> bool" where
  "kept_targets func_names removeList dot =
     list_all (\<lambda>(i, j, c). c = Callback \<or> (j < length func_names \<and> func_names ! j \<notin> set removeList))
       (edges dot)"

definition extends :: "string list \<Rightarrow> string list \<Rightarrow> graph \<Rightarrow> graph \<Rightarrow> bool" where
  "extends func_names removeList dot dot' =
     (set (nodes dot) \<subseteq> set (nodes dot') \<and>
      (kept_targets func_names removeList dot \<longrightarrow> kept_targets func_names removeList dot'))"

section \<open>Properties\<close>

lemma main_result:
  "map_sum id (\<lambda>g. (nodes g, edges g)) r = Inl e \<Longrightarrow> r = Inl e"
  by (cases r) auto

subsection \<open>Decimal rendering and integer parsing\<close>

lemma lt10_cases: "d < 10 \<Longrightarrow> d \<in> set [0,1,2,3,4,5,6,7,8,9::nat]"
  by (simp, arith)

lemma digit_char_props:
  assumes "d < 10"
  shows "digit_val (digit_char d) = Some d" "digit_char d \<noteq> CHR ''_''" "\<not> is_space (digit_char d)"
    "digit_char d \<noteq> CHR ''-''" "digit_char d \<noteq> CHR ''+''"
    "digit_char d = CHR ''0'' \<longleftrightarrow> d = 0"
  using lt10_cases[OF assms]
  by (auto simp: digit_char_def digit_val_def is_space_def)

lemma parse_digits_digits10:
  "parse_digits 10 acc p (digits10 n @ s) = parse_digits 10 (acc * 10 ^ length (digits10 n) + n) True s"
proof (induction n arbitrary: acc p s rule: digits10.induct)
  case (1 n)
  show ?case
  proof (cases "n < 10")
    case True
    then show ?thesis
      by (subst digits10.simps, subst (2) digits10.simps) (simp add: digit_char_props)
  next
    case False
    have m: "n mod 10 < 10" by simp
    have e: "digits10 n = digits10 (n div 10) @ [digit_char (n mod 10)]"
      using False by (subst digits10.simps) simp
    show ?thesis
      using False
      by (simp add: e "1.IH" digit_char_props[OF m] algebra_simps)
  qed
qed

lemma digits10_nonempty: "digits10 n \<noteq> []"
  by (subst digits10.simps) simp

lemma digits10_hd: "hd (digits10 n) = CHR ''0'' \<longleftrightarrow> n = 0"
proof (induction n rule: digits10.induct)
  case (1 n)
  show ?case
  proof (cases "n < 10")
    case True
    then show ?thesis by (subst digits10.simps) (simp add: digit_char_props)
  next
    case False
    then have "hd (digits10 n) = hd (digits10 (n div 10))"
      by (subst digits10.simps) (simp add: digits10_nonempty)
    with False "1.IH" show ?thesis by simp
  qed
qed

lemma digits10_chars: "c \<in> set (digits10 n) \<Longrightarrow> \<exists>d<10. c = digit_char d"
proof (induction n rule: digits10.induct)
  case (1 n)
  show ?case
  proof (cases "n < 10")
    case True
    with "1.prems" show ?thesis by (subst (asm) digits10.simps) auto
  next
    case False
    have m: "n mod 10 < 10" by simp
    from False "1.prems" have "c \<in> set (digits10 (n div 10)) \<or> c = digit_char (n mod 10)"
      by (subst (asm) digits10.simps) auto
    with False "1.IH" m show ?thesis by blast
  qed
qed

lemma dropWhile_self: "xs \<noteq> [] \<Longrightarrow> \<not> P (hd xs) \<Longrightarrow> dropWhile P xs = xs"
  by (cases xs) auto

lemma int_space_is_space: "is_int_space c \<Longrightarrow> is_space c"
  by (auto simp: is_int_space_def is_space_def)

lemma int_strip_id:
  "s \<noteq> [] \<Longrightarrow> \<not> is_space (hd s) \<Longrightarrow> \<not> is_space (last s) \<Longrightarrow> int_strip s = s"
proof -
  assume a: "s \<noteq> []" "\<not> is_space (hd s)" "\<not> is_space (last s)"
  from a(2,3) int_space_is_space have n: "\<not> is_int_space (hd s)" "\<not> is_int_space (last s)"
    by blast+
  from a(1) n show ?thesis
    by (simp add: int_strip_def dropWhile_self hd_rev)
qed


lemma digits10_not_space: "c \<in> set (digits10 n) \<Longrightarrow> \<not> is_space c"
  using digits10_chars digit_char_props(3) by blast

lemma digits10_first: "\<exists>c cs. digits10 n = c # cs \<and> (c = CHR ''0'' \<longleftrightarrow> n = 0) \<and> c \<noteq> CHR ''-'' \<and> c \<noteq> CHR ''+'' \<and> \<not> is_space c"
proof -
  obtain c cs where e: "digits10 n = c # cs" using digits10_nonempty by (cases "digits10 n") auto
  then have "c \<in> set (digits10 n)" by simp
  then obtain d where d: "d < 10" "c = digit_char d" using digits10_chars by blast
  from e digits10_hd[of n] have "c = CHR ''0'' \<longleftrightarrow> n = 0" by simp
  with e d digit_char_props[OF d(1)] show ?thesis by auto
qed

lemma int_strip_digits10: "int_strip (digits10 n) = digits10 n"
proof (rule int_strip_id)
  show "digits10 n \<noteq> []" by (rule digits10_nonempty)
  show "\<not> is_space (hd (digits10 n))" using digits10_nonempty digits10_not_space hd_in_set by blast
  show "\<not> is_space (last (digits10 n))" using digits10_nonempty digits10_not_space last_in_set by blast
qed

lemma int_strip_minus_digits10: "int_strip (CHR ''-'' # digits10 n) = CHR ''-'' # digits10 n"
proof (rule int_strip_id)
  show "CHR ''-'' # digits10 n \<noteq> []" by simp
  show "\<not> is_space (hd (CHR ''-'' # digits10 n))" by (simp add: is_space_def)
  show "\<not> is_space (last (CHR ''-'' # digits10 n))"
    using digits10_nonempty digits10_not_space last_in_set by (metis last_ConsR)
qed

lemma parse_digits10: "parse_digits 10 0 False (digits10 n) = Some n"
  using parse_digits_digits10[of 0 False n "[]"] by simp

lemma base0_digits10:
  "(if starts_with ''0x'' r \<or> starts_with ''0X'' r then parse_prefixed 16 (drop 2 r)
           else if starts_with ''0o'' r \<or> starts_with ''0O'' r then parse_prefixed 8 (drop 2 r)
           else if starts_with ''0b'' r \<or> starts_with ''0B'' r then parse_prefixed 2 (drop 2 r)
           else if starts_with ''0'' r
           then (case parse_digits 10 0 False r of
                   Some n \<Rightarrow> if n = 0 then Some 0 else None
                 | None \<Rightarrow> None)
           else parse_digits 10 0 False r) = Some n" if "r = digits10 n"
proof (cases "n = 0")
  case True
  then have "r = ''0''" using that by (subst (asm) digits10.simps) (simp add: digit_char_def)
  then show ?thesis using True by (simp add: starts_with_def digit_val_def)
next
  case False
  obtain c cs where c: "digits10 n = c # cs" "c \<noteq> CHR ''0''" using digits10_first[of n] False by auto
  then show ?thesis using that parse_digits10[of n] by (simp add: starts_with_def)
qed

lemma int_sign_neg: "i < 0 \<Longrightarrow> int_sign (py_str i) = (True, digits10 (nat (- i)))"
  apply (simp only: int_sign_def py_str_def if_True int_strip_minus_digits10 Let_def)
  apply (simp only: starts_with_def)
  apply simp
  done

lemma py_str_nonneg: "\<not> i < 0 \<Longrightarrow> py_str i = digits10 (nat i)"
  by (simp add: py_str_def)

lemma int_sign_plain:
  "int_strip (py_str i) = c # cs \<Longrightarrow> c \<noteq> CHR ''-'' \<Longrightarrow> c \<noteq> CHR ''+'' \<Longrightarrow>
     int_sign (py_str i) = (False, c # cs)"
  unfolding int_sign_def Let_def by (simp add: starts_with_def)

lemma int_sign_pos: "\<not> i < 0 \<Longrightarrow> int_sign (py_str i) = (False, digits10 (nat i))"
proof -
  assume a: "\<not> i < 0"
  obtain c cs where c: "digits10 (nat i) = c # cs" "c \<noteq> CHR ''-''" "c \<noteq> CHR ''+''"
    using digits10_first[of "nat i"] by blast
  have "int_strip (py_str i) = c # cs"
    using py_str_nonneg[OF a] int_strip_digits10[of "nat i"] c(1) by metis
  from int_sign_plain[OF this c(2,3)] show ?thesis using c(1) by metis
qed

lemma py_int0_py_str: "py_int0 (py_str i) = Some i"
proof (cases "i < 0")
  case True
  have "py_int0 (py_str i) = signed True (Some (nat (- i)))"
    unfolding py_int0_def int_sign_neg[OF True] prod.case
    by (simp only: base0_digits10[OF refl])
  then show ?thesis using True by (simp add: signed_def)
next
  case False
  have "py_int0 (py_str i) = signed False (Some (nat i))"
    unfolding py_int0_def int_sign_pos[OF False] prod.case
    by (simp only: base0_digits10[OF refl])
  then show ?thesis using False by (simp add: signed_def)
qed

lemma split_from_no_sep:
  "d \<notin> set l \<Longrightarrow> split_from d [] cur (l @ s) = split_from d [] (cur @ l) s"
  by (induction l arbitrary: cur) (auto simp: starts_with_def)

lemma py_split_none: "d \<notin> set l \<Longrightarrow> py_split [d] l = [l]"
  using split_from_no_sep[of d l "[]" "[]"] by (simp add: py_split.simps)

lemma py_split_one:
  "d \<notin> set l \<Longrightarrow> d \<notin> set r \<Longrightarrow> py_split [d] (l @ [d] @ r) = [l, r]"
  using split_from_no_sep[of d l "[]" "d # r"] split_from_no_sep[of d r "[]" "[]"]
  by (simp add: starts_with_def py_split.simps)

lemma py_int_whitespace_examples:
  "py_int '' 5 '' = Some 5" "py_int [CHR 0x1C, CHR ''5''] = None"
  "py_int0 [CHR ''5'', CHR 0x1F] = None" "py_int0 [CHR 0x85, CHR ''5'', CHR 0xA0] = Some 5"
  by code_simp+

subsection \<open>Enum values\<close>

lemma enum_member_plain:
  assumes "strip_enum_comments var0 = var" "var \<noteq> []" "CHR ''='' \<notin> set var"
  shows "enum_member (enums, v) var0 = Inr (enums(var \<mapsto> v), v + 1)"
  using assms by (simp add: enum_member_def py_split_none Let_def)

lemma enum_member_explicit:
  assumes "strip_enum_comments var0 = l @ ''='' @ r" "CHR ''='' \<notin> set l" "CHR ''='' \<notin> set r"
    and "py_int0 (getDefault enums (py_strip r) (py_strip r)) = Some w"
  shows "enum_member (enums, v) var0 = Inr (enums(py_strip l \<mapsto> w), w + 1)"
  using assms py_split_one[of "CHR ''=''" l r] by (simp add: enum_member_def Let_def)

lemma getEnums_example:
  "map_sum id (\<lambda>m. map m [''A'', ''B'', ''C'']) (getEnums ''enum { A, B = A, C }'') =
     Inr [Some 0, Some 0, Some 1]"
  by code_simp

text \<open>
  What the loop does with one fragment, read after its comments are cut. A fragment
  without \<^verbatim>\<open>=\<close> gets the running value and the next value is one more; as the first
  fragment of a block it gets 0. A fragment \<^verbatim>\<open>name = value\<close> whose value is the name of a
  member already stored gets that member's value, and one whose value \<^verbatim>\<open>int(value, 0)\<close>
  reads gets that number; in both cases the next value is one more.
\<close>

lemma enum_member_values:
  assumes "strip_enum_comments var0 = var"
  shows "(var \<noteq> [] \<and> CHR ''='' \<notin> set var \<longrightarrow>
            enum_member (enums, v) var0 = Inr (enums(var \<mapsto> v), v + 1)
          \<and> (\<forall>x xs vars. py_split '','' x = var0 # vars \<longrightarrow>
                enum_blocks enums (x # xs) =
                  (case enum_block (enums(var \<mapsto> 0), 1) vars of
                     Inl e \<Rightarrow> Inl e
                   | Inr (enums', n) \<Rightarrow> enum_blocks enums' xs)))
       \<and> (\<forall>l r w. var = l @ ''='' @ r \<and> CHR ''='' \<notin> set l \<and> CHR ''='' \<notin> set r \<and>
               (enums (py_strip r) = Some w \<or>
                enums (py_strip r) = None \<and> py_int0 (py_strip r) = Some w) \<longrightarrow>
             enum_member (enums, v) var0 = Inr (enums(py_strip l \<mapsto> w), w + 1))"
proof (intro conjI impI allI)
  assume a: "var \<noteq> [] \<and> CHR ''='' \<notin> set var"
  then show "enum_member (enums, v) var0 = Inr (enums(var \<mapsto> v), v + 1)"
    using assms enum_member_plain by blast
next
  fix x xs vars
  assume a: "var \<noteq> [] \<and> CHR ''='' \<notin> set var" and s: "py_split '','' x = var0 # vars"
  have "enum_member (enums, 0) var0 = Inr (enums(var \<mapsto> 0), 0 + 1)"
    using a assms enum_member_plain by blast
  then show "enum_blocks enums (x # xs) =
      (case enum_block (enums(var \<mapsto> 0), 1) vars of
         Inl e \<Rightarrow> Inl e
       | Inr (enums', n) \<Rightarrow> enum_blocks enums' xs)"
    by (simp add: s)
next
  fix l r w
  assume a: "var = l @ ''='' @ r \<and> CHR ''='' \<notin> set l \<and> CHR ''='' \<notin> set r \<and>
               (enums (py_strip r) = Some w \<or>
                enums (py_strip r) = None \<and> py_int0 (py_strip r) = Some w)"
  then have "py_int0 (getDefault enums (py_strip r) (py_strip r)) = Some w"
    by (auto simp: getDefault_def py_int0_py_str)
  with a assms show "enum_member (enums, v) var0 = Inr (enums(py_strip l \<mapsto> w), w + 1)"
    using enum_member_explicit by blast
qed

lemma enum_member_values_examples:
  "enum_member (Map.empty(''A'' \<mapsto> 0), 1) '' /* 1 */ B = A'' =
     Inr (Map.empty(''A'' \<mapsto> 0, ''B'' \<mapsto> 0), 1)
   \<and> enum_member (Map.empty(''A'' \<mapsto> 0, ''B'' \<mapsto> 0), 1) '' C // last'' =
     Inr (Map.empty(''A'' \<mapsto> 0, ''B'' \<mapsto> 0, ''C'' \<mapsto> 1), 2)
   \<and> enum_member (Map.empty, 7) ''D = 0x10'' = Inr (Map.empty(''D'' \<mapsto> 16), 17)"
proof -
  have s1: "strip_enum_comments '' /* 1 */ B = A'' = ''B '' @ ''='' @ '' A''" by code_simp
  have s2: "strip_enum_comments '' C // last'' = ''C''" by code_simp
  have s3: "strip_enum_comments ''D = 0x10'' = ''D '' @ ''='' @ '' 0x10''" by code_simp
  have p: "py_strip ''B '' = ''B''" "py_strip '' A'' = ''A''" "py_strip ''D '' = ''D''"
    "py_strip '' 0x10'' = ''0x10''" by code_simp+
  have i: "py_int0 ''0x10'' = Some 16" by code_simp
  note t1 = enum_member_values[OF s1, of "Map.empty(''A'' \<mapsto> 0)" 1, THEN conjunct2,
      rule_format, of "''B ''" "'' A''" 0]
  note t2 = enum_member_values[OF s2, of "Map.empty(''A'' \<mapsto> 0, ''B'' \<mapsto> 0)" 1,
      THEN conjunct1, rule_format, THEN conjunct1]
  note t3 = enum_member_values[OF s3, of Map.empty 7, THEN conjunct2,
      rule_format, of "''D ''" "'' 0x10''" 16]
  have "enum_member (Map.empty(''A'' \<mapsto> 0), 1) '' /* 1 */ B = A'' =
      Inr (Map.empty(''A'' \<mapsto> 0, py_strip ''B '' \<mapsto> 0), 0 + 1)"
    by (rule t1) (simp add: p)
  moreover have "enum_member (Map.empty(''A'' \<mapsto> 0, ''B'' \<mapsto> 0), 1) '' C // last'' =
      Inr (Map.empty(''A'' \<mapsto> 0, ''B'' \<mapsto> 0, ''C'' \<mapsto> 1), 1 + 1)"
    by (rule t2) simp
  moreover have "enum_member (Map.empty, 7) ''D = 0x10'' =
      Inr (Map.empty(py_strip ''D '' \<mapsto> 16), 16 + 1)"
    by (rule t3) (simp add: p i)
  ultimately show ?thesis by (simp add: p)
qed

text \<open>
  C5: every member without a value is claimed to get the value before it plus one, and a
  value is claimed to be a literal in any base of C or the name of an earlier member. Two
  inputs of ordinary C show otherwise. The octal literal \<^verbatim>\<open>010\<close> is refused by
  \<^verbatim>\<open>int(valueExpr, 0)\<close>: \<^verbatim>\<open>ValueError\<close> leaves \<^verbatim>\<open>getEnums\<close> and ends \<^verbatim>\<open>main\<close>. And a
  line comment after a comma belongs to the fragment of the next member, which the cut at
  \<^verbatim>\<open>//\<close> empties: in the second block \<^verbatim>\<open>B\<close> gets no value and \<^verbatim>\<open>C\<close> gets 1, where C
  gives 1 and 2.
\<close>

theorem C5_enum_octal_and_comment:
  "getEnums ''enum { A = 010, B }'' = Inl ValueError \<and>
   main (plain_runtime ev) False None
     ''enum { A = 010, B };\<newline>A_Init(x) {\<newline> this->actionFunc = 0;\<newline>}\<newline>'' = Inl ValueError \<and>
   map_sum id (\<lambda>m. map m [''A'', ''B'', ''C''])
     (getEnums ''enum {\<newline> A, // first\<newline> B,\<newline> C\<newline>}'') = Inr [Some 0, None, Some 1]"
proof (intro conjI)
  have "map_sum id (\<lambda>m. ()) (getEnums ''enum { A = 010, B }'') = Inl ValueError"
    by code_simp
  then show "getEnums ''enum { A = 010, B }'' = Inl ValueError"
    by (cases "getEnums ''enum { A = 010, B }''") auto
  have "map_sum id (\<lambda>g. (nodes g, edges g)) (main (plain_runtime ev) False None
     ''enum { A = 010, B };\<newline>A_Init(x) {\<newline> this->actionFunc = 0;\<newline>}\<newline>'') = Inl ValueError"
    by code_simp
  then show "main (plain_runtime ev) False None
     ''enum { A = 010, B };\<newline>A_Init(x) {\<newline> this->actionFunc = 0;\<newline>}\<newline>'' = Inl ValueError"
    by (rule main_result)
  show "map_sum id (\<lambda>m. map m [''A'', ''B'', ''C''])
     (getEnums ''enum {\<newline> A, // first\<newline> B,\<newline> C\<newline>}'') = Inr [Some 0, None, Some 1]"
    by code_simp
qed

subsection \<open>The located body and the signature lines\<close>









text \<open>Every line is such a pair of code and comment: the cut of \<open>strip_line_comment\<close> and
  the rest.\<close>

lemma str_index_first:
  "str_index ''//'' l = Some i \<Longrightarrow>
     \<not> contains ''//'' (take i l) \<and> starts_with ''//'' (drop i l) \<and> \<not> ends_with ''/'' (take i l)"
proof (induction l arbitrary: i)
  case Nil
  then show ?case by simp
next
  case (Cons a l)
  show ?case
  proof (cases "starts_with ''//'' (a # l)")
    case True
    with Cons.prems show ?thesis by (simp add: ends_with_def starts_with_def)
  next
    case False
    with Cons.prems obtain j where j: "str_index ''//'' l = Some j" "i = Suc j" by auto
    from Cons.IH[OF j(1)] have ih: "\<not> contains ''//'' (take j l)"
      "starts_with ''//'' (drop j l)" "\<not> ends_with ''/'' (take j l)" by auto
    have n1: "\<not> starts_with ''//'' (a # take j l)"
    proof
      assume "starts_with ''//'' (a # take j l)"
      then have "starts_with ''//'' (a # l)"
        by (cases l; cases j) (auto simp: starts_with_def)
      with False show False by simp
    qed
    have n2: "\<not> ends_with ''/'' (a # take j l)"
    proof (cases "take j l = []")
      case True
      then have "j = 0 \<or> l = []" by auto
      with ih(2) False True show ?thesis
        by (cases l) (auto simp: starts_with_def ends_with_def)
    next
      case e: False
      with ih(3) show ?thesis
        by (cases "take j l" rule: rev_cases) (auto simp: ends_with_def starts_with_def)
    qed
    from ih n1 n2 j show ?thesis by simp
  qed
qed

lemma every_line_commented:
  "commented (strip_line_comment l, drop (length (strip_line_comment l)) l)"
proof (cases "str_index ''//'' l")
  case None
  then have "\<not> contains ''//'' l" by (induction l) (auto split: if_splits)
  with None show ?thesis by (simp add: commented_def strip_line_comment_def)
next
  case (Some i)
  have "i \<le> length l" using Some
    by (induction l arbitrary: i) (auto split: if_splits)
  with str_index_first[OF Some] Some show ?thesis
    by (simp add: commented_def strip_line_comment_def min_def)
qed



text \<open>A line number that \<^verbatim>\<open>setup_line_numbers\<close> stores is never 0: the guard
  \<^verbatim>\<open>line_num <= 0\<close> of \<^verbatim>\<open>get_code_body\<close> does not fire.\<close>

lemma line_hits_values:
  "line_hits fn defs k line names = Inr hits \<Longrightarrow> list_all (\<lambda>n. n = k) hits"
  by (induction names arbitrary: hits) (auto split: option.splits if_splits sum.splits)

lemma line_numbers_from_positive:
  "line_numbers_from fn defs k ls = Inr lns \<Longrightarrow> list_all (\<lambda>n. k \<le> n) lns"
proof (induction ls arbitrary: k lns)
  case Nil
  then show ?case by simp
next
  case (Cons l ls)
  then obtain hits later where h: "line_hits fn defs k l fn = Inr hits"
    and r: "line_numbers_from fn defs (Suc k) ls = Inr later" and e: "lns = hits @ later"
    by (auto split: sum.splits)
  from line_hits_values[OF h] have "list_all (\<lambda>n. k \<le> n) hits"
    by (simp add: list_all_iff)
  moreover from Cons.IH[OF r] have "list_all (\<lambda>n. k \<le> n) later"
    by (auto simp: list_all_iff)
  ultimately show ?case by (simp add: e)
qed

lemma setup_line_numbers_positive:
  "setup_line_numbers content fn defs = Inr lns \<Longrightarrow> list_all (\<lambda>n. 0 < n) lns"
  using line_numbers_from_positive[of fn defs 1 "py_splitlines content" lns]
  by (auto simp: setup_line_numbers_def list_all_iff)

text \<open>
  C7: a function whose signature line is not found is claimed to get an empty body and to
  stay an edgeless node, the run going on and the other bodies being right. In the text
  below the parameter list of \<^verbatim>\<open>A\<close> holds a brace in a comment, so the definition kept for
  \<^verbatim>\<open>A\<close> is cut at that brace and occurs in no line. \<^verbatim>\<open>setup_line_numbers\<close> appends a line
  number only on a hit, so the list holds the one line of \<^verbatim>\<open>B\<close>: the body located for
  \<^verbatim>\<open>A\<close> is the body of \<^verbatim>\<open>B\<close>, and locating \<^verbatim>\<open>B\<close> raises \<^verbatim>\<open>IndexError\<close>, which ends
  \<^verbatim>\<open>main\<close>.
\<close>

theorem C7_missing_signature_line:
  "capture_definition_names
     ''void A(int x /*{*/) {\<newline>    this->actionFunc = B;\<newline>}\<newline>void B(void) {\<newline>    b();\<newline>}\<newline>''
     = [''A'', ''B''] \<and>
   setup_line_numbers
     ''void A(int x /*{*/) {\<newline>    this->actionFunc = B;\<newline>}\<newline>void B(void) {\<newline>    b();\<newline>}\<newline>''
     [''A'', ''B''] [''A(int x /* {'', ''B(void) {''] = Inr [4] \<and>
   get_code_body [''A'', ''B''] [4]
     ''void A(int x /*{*/) {\<newline>    this->actionFunc = B;\<newline>}\<newline>void B(void) {\<newline>    b();\<newline>}\<newline>''
     ''A'' = Inr ''    b();\<newline>'' \<and>
   get_code_body [''A'', ''B''] [4]
     ''void A(int x /*{*/) {\<newline>    this->actionFunc = B;\<newline>}\<newline>void B(void) {\<newline>    b();\<newline>}\<newline>''
     ''B'' = Inl IndexError \<and>
   main (plain_runtime ev) False None
     ''void A(int x /*{*/) {\<newline>    this->actionFunc = B;\<newline>}\<newline>void B(void) {\<newline>    b();\<newline>}\<newline>''
     = Inl IndexError"
proof -
  have "map_sum id (\<lambda>g. (nodes g, edges g)) (main (plain_runtime ev) False None
     ''void A(int x /*{*/) {\<newline>    this->actionFunc = B;\<newline>}\<newline>void B(void) {\<newline>    b();\<newline>}\<newline>'')
     = Inl IndexError"
    by code_simp
  then have "main (plain_runtime ev) False None
     ''void A(int x /*{*/) {\<newline>    this->actionFunc = B;\<newline>}\<newline>void B(void) {\<newline>    b();\<newline>}\<newline>''
     = Inl IndexError"
    by (rule main_result)
  moreover have "capture_definition_names
     ''void A(int x /*{*/) {\<newline>    this->actionFunc = B;\<newline>}\<newline>void B(void) {\<newline>    b();\<newline>}\<newline>''
     = [''A'', ''B'']" by code_simp
  moreover have "setup_line_numbers
     ''void A(int x /*{*/) {\<newline>    this->actionFunc = B;\<newline>}\<newline>void B(void) {\<newline>    b();\<newline>}\<newline>''
     [''A'', ''B''] [''A(int x /* {'', ''B(void) {''] = Inr [4]" by code_simp
  moreover have "get_code_body [''A'', ''B''] [4]
     ''void A(int x /*{*/) {\<newline>    this->actionFunc = B;\<newline>}\<newline>void B(void) {\<newline>    b();\<newline>}\<newline>''
     ''A'' = Inr ''    b();\<newline>''" by code_simp
  moreover have "get_code_body [''A'', ''B''] [4]
     ''void A(int x /*{*/) {\<newline>    this->actionFunc = B;\<newline>}\<newline>void B(void) {\<newline>    b();\<newline>}\<newline>''
     ''B'' = Inl IndexError" by code_simp
  ultimately show ?thesis by blast
qed

subsection \<open>The graph of a source file\<close>

lemma extends_refl: "extends fn rl d d"
  by (simp add: extends_def)

lemma extends_trans: "extends fn rl d1 d2 \<Longrightarrow> extends fn rl d2 d3 \<Longrightarrow> extends fn rl d1 d3"
  by (auto simp: extends_def)

lemma extends_node: "extends fn rl d (dot_node d i l)"
  by (auto simp: extends_def dot_node_def kept_targets_def)

lemma extends_edge:
  "c = Callback \<or> (j < length fn \<and> fn ! j \<notin> set rl) \<Longrightarrow> extends fn rl d (dot_edge d i j c)"
  by (auto simp: extends_def dot_edge_def kept_targets_def)

lemma node_in_dot_node: "(i, l) \<in> set (nodes (dot_node d i l))"
  by (simp add: dot_node_def)

lemma list_index_Some: "list_index xs x = Some j \<Longrightarrow> j < length xs \<and> xs ! j = x"
  by (induction xs arbitrary: j) (auto split: if_splits)

lemma index_of_func_Some:
  "index_of_func fn x = Some j \<Longrightarrow> j < length fn \<and> fn ! j = x"
  by (simp add: index_of_func_def list_index_Some)

lemma extends_transition:
  "t \<notin> set rl \<Longrightarrow> extends fn rl d (addFunctionTransitionToGraph fn d i name t)"
proof (cases "index_of_func fn t")
  case None
  then show ?thesis by (simp add: addFunctionTransitionToGraph_def extends_refl)
next
  case (Some j)
  assume t: "t \<notin> set rl"
  from index_of_func_Some[OF Some] t have j: "j < length fn \<and> fn ! j \<notin> set rl" by simp
  have "extends fn rl d
      (dot_edge (dot_node (dot_node d i name) j t) i j
         (if ends_with ''_Init'' name then ActionFuncInit else ActionFunc))"
    by (rule extends_trans[OF extends_trans[OF extends_node extends_node] extends_edge])
       (simp add: j)
  then show ?thesis
    using Some by (simp add: addFunctionTransitionToGraph_def)
qed

lemma extends_transitions:
  "set ts \<inter> set rl = {} \<Longrightarrow>
   extends fn rl d (foldl (\<lambda>d t. addFunctionTransitionToGraph fn d i name t) d ts)"
proof (induction ts arbitrary: d)
  case Nil
  then show ?case by (simp add: extends_refl)
next
  case (Cons t ts)
  then have a: "extends fn rl d (addFunctionTransitionToGraph fn d i name t)"
    by (intro extends_transition) auto
  have b: "extends fn rl (addFunctionTransitionToGraph fn d i name t)
     (foldl (\<lambda>d t. addFunctionTransitionToGraph fn d i name t)
        (addFunctionTransitionToGraph fn d i name t) ts)"
    using Cons by (intro Cons.IH) auto
  show ?case using extends_trans[OF a b] by simp
qed

lemma extends_call_names:
  "call_names_loop fn i rl sa raw seen d calls = Inr d' \<Longrightarrow> extends fn rl d d'"
proof (induction calls arbitrary: seen d)
  case Nil
  then show ?case by (simp add: extends_refl)
next
  case (Cons call calls)
  show ?case
  proof (cases "call \<notin> set fn \<or> call \<in> set seen \<or> call \<in> set rl \<or>
         (sa \<and> (contains ''_SetupAction'' call \<or> contains ''_SetAction'' call))")
    case True
    with Cons show ?thesis by simp
  next
    case False
    with Cons.prems obtain j where j: "index_of_func fn call = Some j"
      and r: "call_names_loop fn i rl sa raw (call # seen)
            (dot_edge (dot_node (if raw then dot_node d i (fn ! i) else d) j call) i j FuncCall)
            calls = Inr d'"
      by (auto split: if_splits option.splits)
    from index_of_func_Some[OF j] False have k: "j < length fn \<and> fn ! j \<notin> set rl" by auto
    have a: "extends fn rl d (if raw then dot_node d i (fn ! i) else d)"
      by (simp add: extends_refl extends_node)
    have b: "extends fn rl d
        (dot_edge (dot_node (if raw then dot_node d i (fn ! i) else d) j call) i j FuncCall)"
      by (rule extends_trans[OF extends_trans[OF a extends_node] extends_edge]) (simp add: k)
    show ?thesis by (rule extends_trans[OF b Cons.IH[OF r]])
  qed
qed

lemma extends_callback_edges:
  "callback_edges fn i ts d cs = Inr d' \<Longrightarrow> extends fn rl d d'"
proof (induction cs arbitrary: d)
  case Nil
  then show ?case by (simp add: extends_refl)
next
  case (Cons c cs)
  show ?case
  proof (cases "c \<in> set ts")
    case True
    with Cons show ?thesis by simp
  next
    case False
    with Cons.prems obtain j where j: "index_of_func fn c = Some j"
      and r: "callback_edges fn i ts (dot_edge (dot_node d j c) i j Callback) cs = Inr d'"
      by (auto split: option.splits)
    have b: "extends fn rl d (dot_edge (dot_node d j c) i j Callback)"
      by (rule extends_trans[OF extends_node extends_edge]) simp
    show ?thesis by (rule extends_trans[OF b Cons.IH[OF r]])
  qed
qed

lemma extends_callbacks:
  "callbacks_loop fn i ts d calls = Inr d' \<Longrightarrow> extends fn rl d d'"
proof (induction calls arbitrary: d)
  case Nil
  then show ?case by (simp add: extends_refl)
next
  case (Cons c calls)
  then obtain d1 where a: "callback_edges fn i ts d (filter (\<lambda>x. x \<in> set (argument_list c)) fn) = Inr d1"
    and b: "callbacks_loop fn i ts d1 calls = Inr d'"
    by (auto split: sum.splits)
  show ?case by (rule extends_trans[OF extends_callback_edges[OF a] Cons.IH[OF b]])
qed

lemma extends_indirect:
  "indirect_loop fn i seen d calls = Inr d' \<Longrightarrow> set calls \<inter> set rl = {} \<Longrightarrow> extends fn rl d d'"
proof (induction calls arbitrary: seen d)
  case Nil
  then show ?case by (simp add: extends_refl)
next
  case (Cons call calls)
  from Cons.prems(2) have dis: "set calls \<inter> set rl = {}" and c: "call \<notin> set rl" by auto
  show ?case
  proof (cases "call \<notin> set fn \<or> call \<in> set seen")
    case True
    with Cons.prems(1) have "indirect_loop fn i seen d calls = Inr d'" by simp
    from Cons.IH[OF this dis] show ?thesis .
  next
    case False
    with Cons.prems(1) obtain j where j: "index_of_func fn call = Some j"
      and r: "indirect_loop fn i (call # seen)
            (dot_edge (dot_node (dot_node d i (fn ! i)) j call) i j IndirectMember) calls = Inr d'"
      by (auto split: if_splits option.splits)
    from index_of_func_Some[OF j] c have k: "j < length fn \<and> fn ! j \<notin> set rl" by auto
    have b: "extends fn rl d
        (dot_edge (dot_node (dot_node d i (fn ! i)) j call) i j IndirectMember)"
      by (rule extends_trans[OF extends_trans[OF extends_node extends_node] extends_edge])
         (simp add: k)
    show ?thesis by (rule extends_trans[OF b Cons.IH[OF r dis]])
  qed
qed

lemma add_names_kept:
  "set acc \<inter> set rl = {} \<Longrightarrow> set (add_names rl acc names) \<inter> set rl = {}"
  by (induction names arbitrary: acc) auto

lemma indirect_functions_kept:
  "indirect_functions rt body macros enums rl acc ms = Inr fs \<Longrightarrow> set acc \<inter> set rl = {} \<Longrightarrow>
     set fs \<inter> set rl = {}"
proof (induction ms arbitrary: acc)
  case Nil
  then show ?case by simp
next
  case (Cons m ms)
  then obtain names where "indirect_functions rt body macros enums rl (add_names rl acc names) ms = Inr fs"
    by (auto split: sum.splits)
  from Cons.IH[OF this add_names_kept[OF Cons.prems(2)]] show ?case .
qed

lemma extends_nodes: "extends fn rl d d' \<Longrightarrow> set (nodes d) \<subseteq> set (nodes d')"
  by (simp add: extends_def)

lemma function_edges_extends:
  assumes "function_edges rt loners rl fn bodies members macros enums sa se arr raw afs avar
             d i name = Inr d'"
  shows "extends fn rl d d' \<and> (loners \<and> name \<notin> set rl \<longrightarrow> (i, name) \<in> set (nodes d'))"
proof (cases "name \<in> set rl")
  case True
  with assms show ?thesis by (simp add: function_edges_def extends_refl)
next
  case False
  define d1 where "d1 = (if loners then dot_node d i name else d)"
  from assms False obtain body found d3 d4 ifs where
    t: "transitions rt sa se arr raw afs avar macros enums body = Inr found"
    and c3: "addCallNamesToGraph
          (foldl (\<lambda>d t. addFunctionTransitionToGraph fn d i name t) d1
             (filter (\<lambda>x. x \<notin> set rl) found))
          fn i body rl sa raw = Inr d3"
    and c4: "addCallbacksToGraph d3 fn i body (filter (\<lambda>x. x \<notin> set rl) found) = Inr d4"
    and fs: "getIndirectFunctionsInFunc rt body members macros enums rl = Inr ifs"
    and c5: "addIndirectFunctionsToGraph d4 fn i ifs = Inr d'"
    unfolding function_edges_def Let_def d1_def
    by (auto split: option.splits sum.splits)
  have e1: "extends fn rl d d1"
    by (simp add: d1_def extends_refl extends_node)
  have e2: "extends fn rl d1
      (foldl (\<lambda>d t. addFunctionTransitionToGraph fn d i name t) d1
         (filter (\<lambda>x. x \<notin> set rl) found))"
    by (rule extends_transitions) auto
  have e3: "extends fn rl
      (foldl (\<lambda>d t. addFunctionTransitionToGraph fn d i name t) d1
         (filter (\<lambda>x. x \<notin> set rl) found)) d3"
    using c3 unfolding addCallNamesToGraph_def by (rule extends_call_names)
  have e4: "extends fn rl d3 d4"
    using c4 unfolding addCallbacksToGraph_def by (rule extends_callbacks)
  have k: "set ifs \<inter> set rl = {}"
    using fs unfolding getIndirectFunctionsInFunc_def
    by (rule indirect_functions_kept) simp
  have e5: "extends fn rl d4 d'"
    using c5 k unfolding addIndirectFunctionsToGraph_def by (rule extends_indirect)
  have e15: "extends fn rl d1 d'"
    by (rule extends_trans[OF extends_trans[OF extends_trans[OF e2 e3] e4] e5])
  have "loners \<Longrightarrow> (i, name) \<in> set (nodes d1)"
    by (simp add: d1_def node_in_dot_node)
  with extends_nodes[OF e15] extends_trans[OF e1 e15] show ?thesis by auto
qed

lemma enumerate_loop_inv:
  assumes step: "\<And>st i n st'. body st i n = Inr st' \<Longrightarrow> R st st' \<and> (Q n \<longrightarrow> (i, n) \<in> N st')"
    and refl: "\<And>st. R st st"
    and trans: "\<And>a b c. R a b \<Longrightarrow> R b c \<Longrightarrow> R a c"
    and mono: "\<And>a b. R a b \<Longrightarrow> N a \<subseteq> N b"
  shows "enumerate_loop body st k names = Inr st' \<Longrightarrow>
           R st st' \<and> (\<forall>i<length names. Q (names ! i) \<longrightarrow> (k + i, names ! i) \<in> N st')"
proof (induction names arbitrary: st k)
  case Nil
  then show ?case by (simp add: refl)
next
  case (Cons n names)
  then obtain st1 where a: "body st k n = Inr st1"
    and b: "enumerate_loop body st1 (Suc k) names = Inr st'"
    by (auto split: sum.splits)
  from step[OF a] have s1: "R st st1" and q1: "Q n \<Longrightarrow> (k, n) \<in> N st1" by auto
  from Cons.IH[OF b] have s2: "R st1 st'"
    and q2: "\<And>i. i < length names \<Longrightarrow> Q (names ! i) \<Longrightarrow> (Suc k + i, names ! i) \<in> N st'"
    by auto
  have "(k + i, (n # names) ! i) \<in> N st'" if "i < length (n # names)" "Q ((n # names) ! i)" for i
  proof (cases i)
    case 0
    with that q1 mono[OF s2] show ?thesis by auto
  next
    case (Suc j)
    with that q2[of j] show ?thesis by simp
  qed
  with trans[OF s1 s2] show ?case by blast
qed

lemma lifecycle_step:
  "lifecycle st i n = Inr st' \<Longrightarrow>
     (set (nodes (snd st)) \<subseteq> set (nodes (snd st')) \<and> edges (snd st') = edges (snd st)) \<and>
     (lifecycle_name n \<longrightarrow> (i, n) \<in> set (nodes (snd st')))"
  by (cases st) (auto simp: lifecycle_def lifecycle_name_def dot_node_def split: if_splits)

lemma lifecycle_loop:
  assumes "enumerate_loop lifecycle st k names = Inr st'"
  shows "(set (nodes (snd st)) \<subseteq> set (nodes (snd st')) \<and> edges (snd st') = edges (snd st)) \<and>
         (\<forall>i<length names. lifecycle_name (names ! i) \<longrightarrow>
            (k + i, names ! i) \<in> set (nodes (snd st')))"
  by (rule enumerate_loop_inv[where body = lifecycle and Q = lifecycle_name
        and R = "\<lambda>a b. set (nodes (snd a)) \<subseteq> set (nodes (snd b)) \<and> edges (snd b) = edges (snd a)"
        and N = "\<lambda>a. set (nodes (snd a))", OF _ _ _ _ assms])
     (auto dest: lifecycle_step)

lemma edges_loop:
  assumes "enumerate_loop
      (function_edges rt loners rl fn bodies members macros enums sa se arr raw afs avar)
      d k names = Inr d'"
  shows "extends fn rl d d' \<and>
         (\<forall>i<length names. loners \<and> names ! i \<notin> set rl \<longrightarrow> (k + i, names ! i) \<in> set (nodes d'))"
proof (rule enumerate_loop_inv[where Q = "\<lambda>n. loners \<and> n \<notin> set rl" and R = "extends fn rl"
        and N = "\<lambda>a. set (nodes a)", OF _ _ _ _ assms])
  fix st i n st'
  assume "function_edges rt loners rl fn bodies members macros enums sa se arr raw afs avar
            st i n = Inr st'"
  then show "extends fn rl st st' \<and> (loners \<and> n \<notin> set rl \<longrightarrow> (i, n) \<in> set (nodes st'))"
    by (rule function_edges_extends)
next
  fix st show "extends fn rl st st" by (rule extends_refl)
next
  fix a b c assume "extends fn rl a b" "extends fn rl b c"
  then show "extends fn rl a c" by (rule extends_trans)
next
  fix a b assume "extends fn rl a b"
  then show "set (nodes a) \<subseteq> set (nodes b)" by (rule extends_nodes)
qed

lemma main_Inr:
  assumes "main rt loners remove contents = Inr g"
  obtains p d0 bodies members enums sa se arr raw afs avar where
    "enumerate_loop lifecycle ([], \<lparr>nodes = [], edges = []\<rparr>) 0
       (capture_definition_names contents) = Inr (p, d0)"
    "enumerate_loop
       (function_edges rt loners (removal_list remove) (capture_definition_names contents)
          bodies members (getMacrosDefinitions contents) enums sa se arr raw afs avar)
       d0 0 (capture_definition_names contents) = Inr g"
  using assms unfolding main_def Let_def
  by (auto split: sum.splits prod.splits if_splits)

lemma graph_of_fields:
  "map_sum id (\<lambda>g. (nodes g, edges g)) r = Inr (ns, es) \<Longrightarrow> r = Inr \<lparr>nodes = ns, edges = es\<rparr>"
  by (cases r) auto

text \<open>
  C9 (as amended): every extracted function whose name ends in \<^verbatim>\<open>_Init\<close>, \<^verbatim>\<open>_Update\<close>,
  \<^verbatim>\<open>_Draw\<close> or \<^verbatim>\<open>_Destroy\<close> is a node of the graph, registered by the first loop before
  any edge is looked for; and with the loners option every extracted function whose name is
  not in the removal list is a node, whatever its edges.
\<close>

theorem C9_lifecycle_and_loners_registered:
  assumes "main rt loners remove contents = Inr g"
    and "i < length (capture_definition_names contents)"
  shows "(\<exists>func_prefix dot.
            enumerate_loop lifecycle ([], \<lparr>nodes = [], edges = []\<rparr>) 0
              (capture_definition_names contents) = Inr (func_prefix, dot) \<and>
            set (nodes dot) \<subseteq> set (nodes g) \<and>
            (lifecycle_name (capture_definition_names contents ! i) \<longrightarrow>
               (i, capture_definition_names contents ! i) \<in> set (nodes dot))) \<and>
         (loners \<and> capture_definition_names contents ! i \<notin> set (removal_list remove) \<longrightarrow>
            (i, capture_definition_names contents ! i) \<in> set (nodes g))"
proof -
  from assms(1) obtain p d0 bodies members enums sa se arr raw afs avar where
    l: "enumerate_loop lifecycle ([], \<lparr>nodes = [], edges = []\<rparr>) 0
          (capture_definition_names contents) = Inr (p, d0)"
    and e: "enumerate_loop
       (function_edges rt loners (removal_list remove) (capture_definition_names contents)
          bodies members (getMacrosDefinitions contents) enums sa se arr raw afs avar)
       d0 0 (capture_definition_names contents) = Inr g"
    by (rule main_Inr)
  from lifecycle_loop[OF l] assms(2)
  have a: "lifecycle_name (capture_definition_names contents ! i) \<longrightarrow>
      (i, capture_definition_names contents ! i) \<in> set (nodes d0)"
    by auto
  from edges_loop[OF e] assms(2)
  have b: "set (nodes d0) \<subseteq> set (nodes g)"
    and c: "loners \<and> capture_definition_names contents ! i \<notin> set (removal_list remove) \<longrightarrow>
      (i, capture_definition_names contents ! i) \<in> set (nodes g)"
    by (auto simp: extends_def)
  from l a b c show ?thesis by blast
qed

theorem C9_lifecycle_and_loners_registered_witness:
  "main (plain_runtime (\<lambda>s. None)) True None
     ''A_Init(x) {\<newline> this->actionFunc = 0;\<newline>}\<newline>W(x) {\<newline>}\<newline>'' =
     Inr \<lparr>nodes = [(0, ''A_Init''), (0, ''A_Init''), (1, ''W'')], edges = []\<rparr> \<and>
   (1, ''W'') \<in> set (nodes \<lparr>nodes = [(0, ''A_Init''), (0, ''A_Init''), (1, ''W'')], edges = []\<rparr>)"
proof -
  have "map_sum id (\<lambda>g. (nodes g, edges g))
     (main (plain_runtime (\<lambda>s. None)) True None
        ''A_Init(x) {\<newline> this->actionFunc = 0;\<newline>}\<newline>W(x) {\<newline>}\<newline>'') =
     Inr ([(0, ''A_Init''), (0, ''A_Init''), (1, ''W'')], [])"
    by code_simp
  then have m: "main (plain_runtime (\<lambda>s. None)) True None
     ''A_Init(x) {\<newline> this->actionFunc = 0;\<newline>}\<newline>W(x) {\<newline>}\<newline>'' =
     Inr \<lparr>nodes = [(0, ''A_Init''), (0, ''A_Init''), (1, ''W'')], edges = []\<rparr>"
    by (rule graph_of_fields)
  have f: "capture_definition_names
     ''A_Init(x) {\<newline> this->actionFunc = 0;\<newline>}\<newline>W(x) {\<newline>}\<newline>'' = [''A_Init'', ''W'']"
    by code_simp
  have r: "removal_list None = [''NULL'']" by (simp add: removal_list_def)
  from C9_lifecycle_and_loners_registered[OF m, of 1] m show ?thesis
    unfolding f r by simp
qed

text \<open>
  The claim as stated registers every extracted function with the loners option. The last
  loop skips a function of the removal list before it registers a loner: with \<^verbatim>\<open>W\<close>
  removed, \<^verbatim>\<open>W\<close> is extracted and is no node.
\<close>

theorem C9_removed_function_not_registered:
  "capture_definition_names ''A_Init(x) {\<newline> this->actionFunc = 0;\<newline>}\<newline>W(x) {\<newline>}\<newline>''
     = [''A_Init'', ''W''] \<and>
   map_sum id nodes
     (main (plain_runtime (\<lambda>s. None)) True (Some [''W''])
        ''A_Init(x) {\<newline> this->actionFunc = 0;\<newline>}\<newline>W(x) {\<newline>}\<newline>'')
   = Inr [(0, ''A_Init''), (0, ''A_Init'')]"
  by code_simp

text \<open>
  C10: \<^verbatim>\<open>NULL\<close> is in the removal list of every run, and no transition edge and no edge
  of an assignment to a member ends at a function of the removal list; so none ends at
  \<^verbatim>\<open>NULL\<close>.
\<close>

theorem C10_removed_names_never_targets:
  assumes "main rt loners remove contents = Inr g"
    and "(i, j, c) \<in> set (edges g)"
    and "c = ActionFunc \<or> c = ActionFuncInit \<or> c = IndirectMember"
  shows "''NULL'' \<in> set (removal_list remove) \<and>
         j < length (capture_definition_names contents) \<and>
         capture_definition_names contents ! j \<notin> set (removal_list remove) \<and>
         capture_definition_names contents ! j \<noteq> ''NULL''"
proof -
  have n: "''NULL'' \<in> set (removal_list remove)"
    by (simp add: removal_list_def)
  from assms(1) obtain p d0 bodies members enums sa se arr raw afs avar where
    l: "enumerate_loop lifecycle ([], \<lparr>nodes = [], edges = []\<rparr>) 0
          (capture_definition_names contents) = Inr (p, d0)"
    and e: "enumerate_loop
       (function_edges rt loners (removal_list remove) (capture_definition_names contents)
          bodies members (getMacrosDefinitions contents) enums sa se arr raw afs avar)
       d0 0 (capture_definition_names contents) = Inr g"
    by (rule main_Inr)
  from lifecycle_loop[OF l] have "edges d0 = []" by simp
  then have "kept_targets (capture_definition_names contents) (removal_list remove) d0"
    by (simp add: kept_targets_def)
  with edges_loop[OF e]
  have "kept_targets (capture_definition_names contents) (removal_list remove) g"
    by (simp add: extends_def)
  with assms(2,3)
  have "j < length (capture_definition_names contents) \<and>
        capture_definition_names contents ! j \<notin> set (removal_list remove)"
    by (auto simp: kept_targets_def list_all_iff)
  with n show ?thesis by auto
qed

theorem C10_removed_names_never_targets_witness:
  "main (plain_runtime (\<lambda>s. None)) False None
     ''A_Init(x) {\<newline> this->actionFunc = NULL;\<newline> this->actionFunc = W;\<newline>}\<newline>W(x) {\<newline>}\<newline>'' =
     Inr \<lparr>nodes = [(0, ''A_Init''), (0, ''A_Init''), (1, ''W'')], edges = [(0, 1, ActionFuncInit)]\<rparr> \<and>
   ''NULL'' \<in> set (removal_list None) \<and>
   capture_definition_names
     ''A_Init(x) {\<newline> this->actionFunc = NULL;\<newline> this->actionFunc = W;\<newline>}\<newline>W(x) {\<newline>}\<newline>'' ! 1
     \<noteq> ''NULL''"
proof -
  have "map_sum id (\<lambda>g. (nodes g, edges g))
     (main (plain_runtime (\<lambda>s. None)) False None
        ''A_Init(x) {\<newline> this->actionFunc = NULL;\<newline> this->actionFunc = W;\<newline>}\<newline>W(x) {\<newline>}\<newline>'') =
     Inr ([(0, ''A_Init''), (0, ''A_Init''), (1, ''W'')], [(0, 1, ActionFuncInit)])"
    by code_simp
  then have m: "main (plain_runtime (\<lambda>s. None)) False None
     ''A_Init(x) {\<newline> this->actionFunc = NULL;\<newline> this->actionFunc = W;\<newline>}\<newline>W(x) {\<newline>}\<newline>'' =
     Inr \<lparr>nodes = [(0, ''A_Init''), (0, ''A_Init''), (1, ''W'')], edges = [(0, 1, ActionFuncInit)]\<rparr>"
    by (rule graph_of_fields)
  from C10_removed_names_never_targets[OF m, of 0 1 ActionFuncInit] m show ?thesis
    by simp
qed

lemma py_nth_examples:
  "py_nth [''A'', ''B''] 1 = Some ''B''" "py_nth [''A'', ''B''] (- 1) = Some ''B''"
  "py_nth [''A'', ''B''] 2 = None" "py_nth [''A'', ''B''] (- 3) = None"
  by code_simp+

text \<open>
  C1: for an actor with an array of action functions, an index that is no integer or is out
  of range is claimed to be skipped with a warning. The text that \<^verbatim>\<open>int\<close> rejects is
  skipped and reported; the index 5 into the two action functions raises \<^verbatim>\<open>IndexError\<close>
  outside the \<^verbatim>\<open>try\<close>, and the exception ends \<^verbatim>\<open>main\<close>.
\<close>

theorem C1_index_out_of_range_raises:
  "array_transitions [''A'', ''B''] [''zz'', ''1''] = Inr ([IndexNotParsed ''zz''], [''B'']) \<and>
   array_transitions [''A'', ''B''] [''5''] = Inl IndexError \<and>
   main (plain_runtime ev) False None
     ''FooActionFunc sF[] = { A, B };\<newline>Foo_Init(x) {\<newline> this->v = 5;\<newline> sF[this->v](x);\<newline>}\<newline>A(x) {\<newline>}\<newline>B(x) {\<newline>}\<newline>''
     = Inl IndexError"
proof (intro conjI)
  show "array_transitions [''A'', ''B''] [''zz'', ''1''] = Inr ([IndexNotParsed ''zz''], [''B''])"
    by code_simp
  show "array_transitions [''A'', ''B''] [''5''] = Inl IndexError"
    by code_simp
  have "map_sum id (\<lambda>g. (nodes g, edges g)) (main (plain_runtime ev) False None
     ''FooActionFunc sF[] = { A, B };\<newline>Foo_Init(x) {\<newline> this->v = 5;\<newline> sF[this->v](x);\<newline>}\<newline>A(x) {\<newline>}\<newline>B(x) {\<newline>}\<newline>'')
     = Inl IndexError"
    by code_simp
  then show "main (plain_runtime ev) False None
     ''FooActionFunc sF[] = { A, B };\<newline>Foo_Init(x) {\<newline> this->v = 5;\<newline> sF[this->v](x);\<newline>}\<newline>A(x) {\<newline>}\<newline>B(x) {\<newline>}\<newline>''
     = Inl IndexError"
    by (rule main_result)
qed

text \<open>
  C2: a name of the removal list is claimed to be in no node and no edge. With \<^verbatim>\<open>W\<close>
  removed, the transition of \<^verbatim>\<open>A_Init\<close> to \<^verbatim>\<open>W\<close> is dropped, but \<^verbatim>\<open>addCallbacksToGraph\<close>
  does not read the removal list: \<^verbatim>\<open>W\<close> as an argument of a call gets its node and a
  callback edge.
\<close>

theorem C2_removed_callback_kept:
  "map_sum id (\<lambda>g. (nodes g, edges g))
     (main (plain_runtime ev) False (Some [''W''])
        ''A_Init(x) {\<newline> this->actionFunc = W;\<newline> f(W, 1);\<newline>}\<newline>W(x) {\<newline>}\<newline>'')
   = Inr ([(0, ''A_Init''), (1, ''W'')], [(0, 1, Callback)])"
  by code_simp

text \<open>
  C3: no two edges are claimed to agree in source, destination and category. The set
  \<^verbatim>\<open>seen\<close> of \<^verbatim>\<open>addCallbacksToGraph\<close> is never read: two calls that pass \<^verbatim>\<open>C\<close> give the same
  callback edge twice.
\<close>

theorem C3_callback_edge_twice:
  "map_sum id edges
     (main (plain_runtime ev) False None
        ''A_Init(x) {\<newline> this->actionFunc = W;\<newline> f(C, 1);\<newline> f(C, 2);\<newline>}\<newline>W(x) {\<newline>}\<newline>C(x) {\<newline>}\<newline>'')
   = Inr [(0, 1, ActionFuncInit), (0, 2, Callback), (0, 2, Callback)]"
  by code_simp

subsection \<open>Macro expansion\<close>

text \<open>
  C4: with the definition \<^verbatim>\<open>#define ADD(x,y) x+y\<close> in the source text, expanding the call
  \<^verbatim>\<open>ADD(1,2)\<close> is claimed to give \<^verbatim>\<open>"3"\<close>. The pattern for a definition admits one
  identifier between the parentheses and no comma, so the definition is not captured at all:
  the container has no macro \<^verbatim>\<open>ADD\<close>, and the expansion reports an unknown macro and
  returns no value, whatever \<^verbatim>\<open>eval\<close> does.
\<close>

theorem C4_two_parameter_macro_not_captured:
  "getMacrosDefinitions ''#define ADD(x,y) x+y\<newline>'' ''ADD'' = None \<and>
   parseMacro ev (getMacrosDefinitions ''#define ADD(x,y) x+y\<newline>'') ''ADD(1,2)'' enums =
     Inr ([UnknownMacro ''ADD''], None)"
  by code_simp

text \<open>A call without inner parentheses and with an unknown name gives the warning and no
  value.\<close>

lemma parseMacro_unknown_example:
  "parseMacro ev Map.empty ''FOO(1, BAR)'' enums = Inr ([UnknownMacro ''FOO''], None)"
  by code_simp

text \<open>
  C6: a call-shaped expression whose name is no known macro is claimed to give no value and
  never to raise. An argument that opens a parenthesis of its own makes the unpacking of
  \<^verbatim>\<open>split("(")\<close> fail with three parts: \<^verbatim>\<open>ValueError\<close> leaves \<^verbatim>\<open>parseMacro\<close>, whatever
  macros are known.
\<close>

theorem C6_nested_call_raises:
  "parseMacro ev macros ''FOO(BAR(1))'' enums = Inl ValueError"
  by code_simp

end
